theory Spec2Isabelle
  imports Main "HOL-Library.Char_ord" "HOL-Library.List_Lexorder" "HOL-Library.Multiset"
begin

section \<open>Python primitives used by the integration\<close>

text \<open>
  The exceptions Python itself raises in the modelled code: \<open>list.index\<close> raises
  \<open>ValueError\<close> when the element is absent, and subscripting \<open>None\<close> raises
  \<open>TypeError\<close>.
\<close>

datatype py_error = ValueError | TypeError

text \<open>
  \<open>s.split(sep)\<close> for a one-character separator: the result is never empty, an empty
  string gives one empty token, and adjacent separators give empty tokens. The separator
  used below is the ASCII underscore, which never occurs inside a multi-byte character, so
  splitting bytes and splitting code points agree.
\<close>

fun str_split :: "char \<Rightarrow> string \<Rightarrow> string list" where
  "str_split c [] = [[]]"
| "str_split c (x # xs) =
     (if x = c then [] # str_split c xs
      else (case str_split c xs of
              [] \<Rightarrow> [[x]]
            | w # ws \<Rightarrow> (x # w) # ws))"

text \<open>\<open>sep.join(xs)\<close>.\<close>

fun str_join :: "string \<Rightarrow> string list \<Rightarrow> string" where
  "str_join sep [] = []"
| "str_join sep [x] = x"
| "str_join sep (x # y # ys) = x @ sep @ str_join sep (y # ys)"

text \<open>\<open>str(n)\<close> for a Python integer: decimal digits, a leading minus sign when negative.\<close>

definition digit_char :: "nat \<Rightarrow> char" where
  "digit_char n = ''0123456789'' ! (n mod 10)"

fun str_nat :: "nat \<Rightarrow> string" where
  "str_nat n = (if n < 10 then [digit_char n] else str_nat (n div 10) @ [digit_char (n mod 10)])"

definition str_int :: "int \<Rightarrow> string" where
  "str_int i = (if i < 0 then CHR ''-'' # str_nat (nat (- i)) else str_nat (nat i))"

text \<open>\<open>xs.index(x)\<close>: the position of the first occurrence, \<open>ValueError\<close> when there is none.\<close>

fun index_of :: "'a list \<Rightarrow> 'a \<Rightarrow> py_error + nat" where
  "index_of [] x = Inl ValueError"
| "index_of (y # ys) x =
     (if y = x then Inr 0
      else (case index_of ys x of Inl e \<Rightarrow> Inl e | Inr i \<Rightarrow> Inr (Suc i)))"

text \<open>
  \<open>xs[k:]\<close> for a Python integer \<open>k\<close>: a negative start counts from the end and is clamped
  at the front; a start past the end gives the empty list.
\<close>

definition slice_from :: "'a list \<Rightarrow> int \<Rightarrow> 'a list" where
  "slice_from xs k =
     (let n = int (length xs);
          j = (if k < 0 then max 0 (n + k) else k)
      in drop (nat j) xs)"

section \<open>Legacy identifier migration\<close>

text \<open>
  The two fields of the base data the migrator reads: the site info carries the nominal
  energy, and a registry entry carries the identifier to be checked. The nominal energy is
  an integer, as in the specification's scenario (13500); the migrator only uses its
  \<open>str\<close>.
\<close>

record site_info =
  nominal_system_energy :: int

record registry_entry =
  unique_id :: string

text \<open>
  \<open>_async_migrator\<close>, the closure of \<open>_migrate_old_unique_ids\<close> over \<open>serial_numbers\<close> and
  \<open>site_info\<close>. \<open>parts[0 : len(serial_numbers)]\<close> is \<open>take\<close>; \<open>parts[::-1]\<close> is \<open>rev\<close>. The
  result \<open>Some u\<close> stands for the dictionary \<open>{"new_unique_id": u}\<close>, \<open>None\<close> for Python's
  \<open>None\<close>, and \<open>Inl\<close> for the exception that leaves the callback.
\<close>

definition async_migrator ::
  "string list \<Rightarrow> site_info \<Rightarrow> registry_entry \<Rightarrow> py_error + string option" where
  "async_migrator serial_numbers site_info entity_entry =
     (let parts = str_split CHR ''_'' (unique_id entity_entry) in
      if take (length serial_numbers) parts \<noteq> serial_numbers then
        (case index_of (rev parts) (str_int (nominal_system_energy site_info)) of
           Inl e \<Rightarrow> Inl e
         | Inr i \<Rightarrow>
             (let normalized_energy_index = int (length parts) - 1 - int i;
                  device_suffix = slice_from parts (normalized_energy_index + 1);
                  new_unique_id = str_join ''_'' (serial_numbers @ device_suffix)
              in Inr (Some new_unique_id)))
      else Inr None)"

text \<open>
  \<open>_migrate_old_unique_ids\<close> reads the serial numbers and the site info out of the base
  data and hands the closure to the host's registry, which calls it on every entry of the
  configuration entry. The base data is the dictionary \<open>call_base_info\<close> returns; the status
  and the device type are passed through untouched, so their types are left open.
\<close>

record ('st, 'dt) base_info =
  api_site_info :: site_info
  api_status :: 'st
  api_device_type :: 'dt
  api_serial_numbers :: "string list"

definition migrate_old_unique_ids ::
  "('st, 'dt) base_info \<Rightarrow> registry_entry \<Rightarrow> py_error + string option" where
  "migrate_old_unique_ids powerwall_data =
     (let serial_numbers = api_serial_numbers powerwall_data;
          site_info = api_site_info powerwall_data
      in async_migrator serial_numbers site_info)"

section \<open>Device errors and the base information\<close>

text \<open>
  The exception classes imported from the device library. \<open>except APIError\<close> also catches
  the subclasses of \<open>APIError\<close>. The classes are declared in the library, not in the
  sources: there \<open>MissingAttributeError\<close> derives from \<open>APIError\<close>, while \<open>AccessDeniedError\<close>
  and \<open>PowerwallUnreachableError\<close> derive from the library's base error directly. The
  handlers below test \<open>AccessDeniedError\<close> before \<open>APIError\<close>, as the source does.
\<close>

datatype powerwall_error =
  AccessDeniedError | APIError | MissingAttributeError | PowerwallUnreachableError

fun isinstance_APIError :: "powerwall_error \<Rightarrow> bool" where
  "isinstance_APIError APIError = True"
| "isinstance_APIError MissingAttributeError = True"
| "isinstance_APIError AccessDeniedError = False"
| "isinstance_APIError PowerwallUnreachableError = False"

text \<open>
  What the device answers to the four calls of \<open>call_base_info\<close>: each call returns a value
  or raises.
\<close>

record ('st, 'dt) base_device =
  get_serial_numbers :: "powerwall_error + string list"
  get_site_info :: "powerwall_error + site_info"
  get_status :: "powerwall_error + 'st"
  get_device_type :: "powerwall_error + 'dt"

text \<open>
  \<open>call_base_info\<close>: the serial numbers are fetched and sorted in place first, then the
  dictionary literal evaluates its three calls in order. Python compares strings by code
  point, which on UTF-8 bytes is the lexicographic order of the bytes.
\<close>

definition call_base_info ::
  "('st, 'dt) base_device \<Rightarrow> powerwall_error + ('st, 'dt) base_info" where
  "call_base_info power_wall =
     (case get_serial_numbers power_wall of
        Inl e \<Rightarrow> Inl e
      | Inr fetched \<Rightarrow>
          (let serial_numbers = sort fetched in
           case get_site_info power_wall of
             Inl e \<Rightarrow> Inl e
           | Inr si \<Rightarrow>
               (case get_status power_wall of
                  Inl e \<Rightarrow> Inl e
                | Inr st \<Rightarrow>
                    (case get_device_type power_wall of
                       Inl e \<Rightarrow> Inl e
                     | Inr dt \<Rightarrow>
                         Inr \<lparr>api_site_info = si, api_status = st, api_device_type = dt,
                              api_serial_numbers = serial_numbers\<rparr>))))"

text \<open>
  \<open>_login_and_fetch_base_info\<close>: log in when a password is configured, pin the version,
  then fetch the base information. The outcomes of \<open>login\<close> and
  \<open>detect_and_pin_version\<close> are inputs: \<open>None\<close> when the call returns, \<open>Some e\<close> when it raises.
\<close>

definition login_and_fetch_base_info ::
  "powerwall_error option \<Rightarrow> powerwall_error option \<Rightarrow> ('st, 'dt) base_device \<Rightarrow>
   string option \<Rightarrow> powerwall_error + ('st, 'dt) base_info" where
  "login_and_fetch_base_info login_outcome pin_outcome power_wall password =
     (case (if password \<noteq> None then login_outcome else None) of
        Some e \<Rightarrow> Inl e
      | None \<Rightarrow>
          (case pin_outcome of
             Some e \<Rightarrow> Inl e
           | None \<Rightarrow> call_base_info power_wall))"

section \<open>The snapshot and the binary sensors\<close>

datatype meter_type = SOLAR | SITE | BATTERY | LOAD

datatype grid_status =
  CONNECTED | ISLANDED_READY | ISLANDED | TRANSITION_TO_GRID | TRANSITION_TO_ISLAND

record sitemaster =
  is_running :: bool
  is_connected_to_tesla :: bool

text \<open>
  A meter of the device library, reduced to the one reading the charging sensor depends
  on: the net power flowing into the meter, in the meter's own units.
\<close>

record meter =
  flow_into :: int

text \<open>
  The dictionary \<open>_fetch_powerwall_data\<close> returns. The charge is only displayed, so its type
  is left open. The meters are looked up by type (\<open>get_meter\<close>).
\<close>

record 'c snapshot =
  api_charge :: 'c
  api_sitemaster :: sitemaster
  api_meters :: "meter_type \<Rightarrow> meter"
  api_grid_services_active :: bool
  api_grid_status :: grid_status

definition get_meter :: "(meter_type \<Rightarrow> meter) \<Rightarrow> meter_type \<Rightarrow> meter" where
  "get_meter meters t = meters t"

text \<open>
  Modelled from the spec: \<open>Meter.is_sending_to\<close> belongs to the device library and is not
  among the sources. The spec defines charging as "net power flow into the battery meter
  exceeding a small positive threshold, e.g. >100 units", and the comment above the call
  says "is_sending_to returns true for values greater than 100 watts".
\<close>

definition is_sending_to :: "meter \<Rightarrow> bool" where
  "is_sending_to m = (flow_into m > 100)"

text \<open>
  The \<open>is_on\<close> properties read \<open>self.coordinator.data[...]\<close>; the coordinator's data is
  \<open>None\<close> until a refresh has stored a snapshot, and subscripting \<open>None\<close> raises.
\<close>

definition running_is_on :: "'c snapshot option \<Rightarrow> py_error + bool" where
  "running_is_on data =
     (case data of None \<Rightarrow> Inl TypeError | Some d \<Rightarrow> Inr (is_running (api_sitemaster d)))"

definition connected_is_on :: "'c snapshot option \<Rightarrow> py_error + bool" where
  "connected_is_on data =
     (case data of
        None \<Rightarrow> Inl TypeError
      | Some d \<Rightarrow> Inr (is_connected_to_tesla (api_sitemaster d)))"

definition grid_services_active_is_on :: "'c snapshot option \<Rightarrow> py_error + bool" where
  "grid_services_active_is_on data =
     (case data of None \<Rightarrow> Inl TypeError | Some d \<Rightarrow> Inr (api_grid_services_active d))"

definition grid_status_is_on :: "'c snapshot option \<Rightarrow> py_error + bool" where
  "grid_status_is_on data =
     (case data of None \<Rightarrow> Inl TypeError | Some d \<Rightarrow> Inr (api_grid_status d = CONNECTED))"

definition charging_is_on :: "'c snapshot option \<Rightarrow> py_error + bool" where
  "charging_is_on data =
     (case data of
        None \<Rightarrow> Inl TypeError
      | Some d \<Rightarrow> Inr (is_sending_to (get_meter (api_meters d) BATTERY)))"

text \<open>
  The identifiers of the five sensors, each the entity's base identifier with a fixed
  suffix. The base identifier is set by the entity's constructor from the serial numbers
  it is given; it is a parameter here.
\<close>

definition running_unique_id :: "string \<Rightarrow> string" where
  "running_unique_id base_unique_id = base_unique_id @ ''_running''"

definition connected_unique_id :: "string \<Rightarrow> string" where
  "connected_unique_id base_unique_id = base_unique_id @ ''_connected_to_tesla''"

definition grid_services_active_unique_id :: "string \<Rightarrow> string" where
  "grid_services_active_unique_id base_unique_id = base_unique_id @ ''_grid_services_active''"

definition grid_status_unique_id :: "string \<Rightarrow> string" where
  "grid_status_unique_id base_unique_id = base_unique_id @ ''_grid_status''"

definition charging_unique_id :: "string \<Rightarrow> string" where
  "charging_unique_id base_unique_id = base_unique_id @ ''_powerwall_charging''"

section \<open>The periodic refresh\<close>

text \<open>
  What the device answers to the five calls of one \<open>_fetch_powerwall_data\<close>: each call
  returns a value or raises.
\<close>

record 'c device_response =
  get_charge :: "powerwall_error + 'c"
  get_sitemaster :: "powerwall_error + sitemaster"
  get_meters :: "powerwall_error + (meter_type \<Rightarrow> meter)"
  is_grid_services_active :: "powerwall_error + bool"
  get_grid_status :: "powerwall_error + grid_status"

text \<open>
  \<open>_fetch_powerwall_data\<close>: the dictionary literal evaluates the five calls in order, and the
  first one that raises ends the evaluation.
\<close>

definition fetch_powerwall_data :: "'c device_response \<Rightarrow> powerwall_error + 'c snapshot" where
  "fetch_powerwall_data power_wall =
     (case get_charge power_wall of
        Inl e \<Rightarrow> Inl e
      | Inr c \<Rightarrow>
          (case get_sitemaster power_wall of
             Inl e \<Rightarrow> Inl e
           | Inr sm \<Rightarrow>
               (case get_meters power_wall of
                  Inl e \<Rightarrow> Inl e
                | Inr ms \<Rightarrow>
                    (case is_grid_services_active power_wall of
                       Inl e \<Rightarrow> Inl e
                     | Inr ga \<Rightarrow>
                         (case get_grid_status power_wall of
                            Inl e \<Rightarrow> Inl e
                          | Inr gs \<Rightarrow>
                              Inr \<lparr>api_charge = c, api_sitemaster = sm, api_meters = ms,
                                   api_grid_services_active = ga, api_grid_status = gs\<rparr>)))))"

text \<open>
  The exceptions that leave the update method: a device error passing through uncaught,
  \<open>UpdateFailed\<close> with one of its three messages, and \<open>ConfigEntryAuthFailed\<close>.
\<close>

datatype update_failure =
    UnableToFetch
  | LoginAttemptFailed nat
  | UpdateFailedDueTo powerwall_error

datatype update_error =
    Powerwall powerwall_error
  | UpdateFailed update_failure
  | ConfigEntryAuthFailed

text \<open>
  The effects on the outside world, in the order they happen. Sessions are named by the
  order of their creation; a client is named by the session it wraps.
\<close>

datatype event =
    SessionClosed nat
  | SessionCreated nat
  | LoginAttempt nat
  | FetchAttempt nat
  | NoticeCreated

text \<open>
  The state the closures of \<open>async_setup_entry\<close> share: its local variables
  \<open>login_failed_count\<close>, \<open>http_session\<close> and \<open>power_wall\<close>, the entries of \<open>runtime_data\<close>,
  and the coordinator's \<open>data\<close>. \<open>closed_sessions\<close>, \<open>next_session\<close> and \<open>events\<close> record what
  has been done to the outside world.
\<close>

record 'c runtime =
  login_failed_count :: nat
  http_session :: nat
  power_wall :: nat
  api_changed :: bool
  runtime_http_session :: nat
  runtime_power_wall :: nat
  coordinator_data :: "'c snapshot option"
  closed_sessions :: "nat list"
  next_session :: nat
  events :: "event list"

record config =
  ip_address :: string
  password :: "string option"

text \<open>
  What the device does during one refresh cycle: its answers to the first fetch, the
  outcome of the login after the session has been recreated (\<open>None\<close> when it returns), and
  its answers to the fetch that follows the login.
\<close>

record 'c cycle_input =
  first_fetch :: "'c device_response"
  relogin :: "powerwall_error option"
  retry_fetch :: "'c device_response"

definition MAX_LOGIN_FAILURES :: nat where
  "MAX_LOGIN_FAILURES = 5"

text \<open>\<open>_async_handle_api_changed_error\<close>: log the error and create the persistent notice.\<close>

definition async_handle_api_changed_error :: "'c runtime \<Rightarrow> 'c runtime" where
  "async_handle_api_changed_error s = s\<lparr>events := events s @ [NoticeCreated]\<rparr>"

text \<open>
  \<open>_async_update_powerwall_data\<close>, called with the current client. An unreachable device
  becomes \<open>UpdateFailed\<close>; a missing attribute creates the notice, sets the flag and returns
  the coordinator's data; any other exception passes through.
\<close>

definition async_update_powerwall_data ::
  "'c device_response \<Rightarrow> 'c runtime \<Rightarrow> (update_error + 'c snapshot option) \<times> 'c runtime" where
  "async_update_powerwall_data response s =
     (let s1 = s\<lparr>events := events s @ [FetchAttempt (power_wall s)]\<rparr> in
      case fetch_powerwall_data response of
        Inr d \<Rightarrow> (Inr (Some d), s1)
      | Inl err \<Rightarrow>
          (if err = PowerwallUnreachableError then (Inl (UpdateFailed UnableToFetch), s1)
           else if err = MissingAttributeError then
             (let s2 = async_handle_api_changed_error s1;
                  s3 = s2\<lparr>api_changed := True\<rparr>
              in (Inr (coordinator_data s3), s3))
           else (Inl (Powerwall err), s1)))"

text \<open>The six statements of \<open>_recreate_powerwall_login\<close>, one state transformer each.\<close>

definition close_http_session :: "'c runtime \<Rightarrow> 'c runtime" where
  "close_http_session s =
     s\<lparr>closed_sessions := http_session s # closed_sessions s,
       events := events s @ [SessionClosed (http_session s)]\<rparr>"

definition new_http_session :: "'c runtime \<Rightarrow> 'c runtime" where
  "new_http_session s =
     s\<lparr>http_session := next_session s,
       next_session := Suc (next_session s),
       events := events s @ [SessionCreated (next_session s)]\<rparr>"

definition new_power_wall :: "'c runtime \<Rightarrow> 'c runtime" where
  "new_power_wall s = s\<lparr>power_wall := http_session s\<rparr>"

definition store_power_wall :: "'c runtime \<Rightarrow> 'c runtime" where
  "store_power_wall s = s\<lparr>runtime_power_wall := power_wall s\<rparr>"

definition store_http_session :: "'c runtime \<Rightarrow> 'c runtime" where
  "store_http_session s = s\<lparr>runtime_http_session := http_session s\<rparr>"

definition login :: "'c runtime \<Rightarrow> 'c runtime" where
  "login s = s\<lparr>events := events s @ [LoginAttempt (power_wall s)]\<rparr>"

text \<open>The states \<open>_recreate_powerwall_login\<close> passes through, the starting state first.\<close>

definition recreate_states :: "'c runtime \<Rightarrow> 'c runtime list" where
  "recreate_states s =
     (let s1 = close_http_session s;
          s2 = new_http_session s1;
          s3 = new_power_wall s2;
          s4 = store_power_wall s3;
          s5 = store_http_session s4;
          s6 = login s5
      in [s, s1, s2, s3, s4, s5, s6])"

definition recreate_powerwall_login ::
  "powerwall_error option \<Rightarrow> 'c runtime \<Rightarrow> (update_error + unit) \<times> 'c runtime" where
  "recreate_powerwall_login login_outcome s =
     (let s6 = login (store_http_session (store_power_wall (new_power_wall
                 (new_http_session (close_http_session s)))))
      in case login_outcome of
           None \<Rightarrow> (Inr (), s6)
         | Some err \<Rightarrow> (Inl (Powerwall err), s6))"

text \<open>
  The handlers of \<open>_async_login_and_retry_update_data\<close>: \<open>except AccessDeniedError\<close> first, then
  \<open>except APIError\<close>; anything else passes through.
\<close>

definition retry_handlers ::
  "update_error \<Rightarrow> 'c runtime \<Rightarrow> (update_error + 'c snapshot option) \<times> 'c runtime" where
  "retry_handlers exn s =
     (case exn of
        Powerwall err \<Rightarrow>
          (if err = AccessDeniedError then
             (let s1 = s\<lparr>login_failed_count := login_failed_count s + 1\<rparr> in
              if login_failed_count s1 = MAX_LOGIN_FAILURES then (Inl ConfigEntryAuthFailed, s1)
              else (Inl (UpdateFailed (LoginAttemptFailed (login_failed_count s1))), s1))
           else if isinstance_APIError err then (Inl (UpdateFailed (UpdateFailedDueTo err)), s)
           else (Inl exn, s))
      | _ \<Rightarrow> (Inl exn, s))"

definition async_login_and_retry_update_data ::
  "'c cycle_input \<Rightarrow> 'c runtime \<Rightarrow> (update_error + 'c snapshot option) \<times> 'c runtime" where
  "async_login_and_retry_update_data inp s =
     (case recreate_powerwall_login (relogin inp) s of
        (Inl exn, s1) \<Rightarrow> retry_handlers exn s1
      | (Inr _, s1) \<Rightarrow>
          (case async_update_powerwall_data (retry_fetch inp) s1 of
             (Inl exn, s2) \<Rightarrow> retry_handlers exn s2
           | (Inr data, s2) \<Rightarrow> (Inr data, s2\<lparr>login_failed_count := 0\<rparr>)))"

text \<open>\<open>async_update_data\<close>, the update method the coordinator calls once per cycle.\<close>

definition async_update_data ::
  "config \<Rightarrow> 'c cycle_input \<Rightarrow> 'c runtime \<Rightarrow>
   (update_error + 'c snapshot option) \<times> 'c runtime" where
  "async_update_data cfg inp s =
     (if api_changed s then (Inr (coordinator_data s), s)
      else
        (case async_update_powerwall_data (first_fetch inp) s of
           (Inl exn, s1) \<Rightarrow>
             (case exn of
                Powerwall err \<Rightarrow>
                  (if err = AccessDeniedError then
                     (if password cfg = None then (Inl ConfigEntryAuthFailed, s1)
                      else async_login_and_retry_update_data inp s1)
                   else if isinstance_APIError err then
                     (Inl (UpdateFailed (UpdateFailedDueTo err)), s1)
                   else (Inl exn, s1))
              | _ \<Rightarrow> (Inl exn, s1))
         | (Inr data, s1) \<Rightarrow> (Inr data, s1\<lparr>login_failed_count := 0\<rparr>)))"

text \<open>
  Modelled from the spec: the coordinator is the host's and is not among the sources. The
  spec gives its contract: on success the snapshot is updated ("Success \<rightarrow> update
  Snapshot"), and "on fetch failure the previous snapshot is retained as-is". One cycle
  calls the update method and stores what it returns; an exception stores nothing.
\<close>

definition refresh_cycle ::
  "config \<Rightarrow> 'c cycle_input \<Rightarrow> 'c runtime \<Rightarrow>
   (update_error + 'c snapshot option) \<times> 'c runtime" where
  "refresh_cycle cfg inp s =
     (case async_update_data cfg inp s of
        (Inr data, s1) \<Rightarrow> (Inr data, s1\<lparr>coordinator_data := data\<rparr>)
      | (Inl exn, s1) \<Rightarrow> (Inl exn, s1))"

text \<open>Cycles are strictly sequential: each starts in the state the previous one left.\<close>

fun refresh_cycles ::
  "config \<Rightarrow> 'c cycle_input list \<Rightarrow> 'c runtime \<Rightarrow>
   (update_error + 'c snapshot option) list \<times> 'c runtime" where
  "refresh_cycles cfg [] s = ([], s)"
| "refresh_cycles cfg (inp # inps) s =
     (case refresh_cycle cfg inp s of
        (r, s1) \<Rightarrow> (case refresh_cycles cfg inps s1 of (rs, s2) \<Rightarrow> (r # rs, s2)))"

text \<open>
  The state \<open>async_setup_entry\<close> leaves when it starts the first refresh: no failed login,
  the flag clear, the first session and its client installed, and no snapshot yet.
\<close>

definition initial_runtime :: "'c runtime" where
  "initial_runtime =
     \<lparr>login_failed_count = 0, http_session = 0, power_wall = 0, api_changed = False,
      runtime_http_session = 0, runtime_power_wall = 0, coordinator_data = None,
      closed_sessions = [], next_session = 1, events = []\<rparr>"

text \<open>A session object is valid while \<open>close\<close> has not been called on it.\<close>

definition session_valid :: "'c runtime \<Rightarrow> nat \<Rightarrow> bool" where
  "session_valid s n = (n \<notin> set (closed_sessions s))"

text \<open>
  The session consumers find in \<open>runtime_data\<close>, and the one the closures hold in
  \<open>http_session\<close>.
\<close>

definition installed_session_valid :: "'c runtime \<Rightarrow> bool" where
  "installed_session_valid s = session_valid s (runtime_http_session s)"

definition current_session_valid :: "'c runtime \<Rightarrow> bool" where
  "current_session_valid s = session_valid s (http_session s)"

text \<open>
  What holds of the sessions between two statements of the closures' bodies: every session
  named so far was created before the next one to be created, and the client, the session
  and the two entries of \<open>runtime_data\<close> all refer to the current session.
\<close>

definition sessions_consistent :: "'c runtime \<Rightarrow> bool" where
  "sessions_consistent s =
     (http_session s < next_session s
      \<and> (\<forall>n \<in> set (closed_sessions s). n < next_session s)
      \<and> power_wall s = http_session s
      \<and> runtime_http_session s = http_session s
      \<and> runtime_power_wall s = http_session s)"

section \<open>Concrete inputs\<close>

text \<open>
  A device that answers every call of a fetch, the snapshot that fetch builds, and a device
  whose third call (\<open>get_meters\<close>) raises after the first two have answered.
\<close>

definition healthy_meters :: "meter_type \<Rightarrow> meter" where
  "healthy_meters t = \<lparr>flow_into = (if t = BATTERY then 250 else 0)\<rparr>"

definition healthy_response :: "nat device_response" where
  "healthy_response =
     \<lparr>get_charge = Inr 50,
      get_sitemaster = Inr \<lparr>is_running = True, is_connected_to_tesla = True\<rparr>,
      get_meters = Inr healthy_meters,
      is_grid_services_active = Inr False,
      get_grid_status = Inr CONNECTED\<rparr>"

definition healthy_snapshot :: "nat snapshot" where
  "healthy_snapshot =
     \<lparr>api_charge = 50,
      api_sitemaster = \<lparr>is_running = True, is_connected_to_tesla = True\<rparr>,
      api_meters = healthy_meters,
      api_grid_services_active = False,
      api_grid_status = CONNECTED\<rparr>"

definition failing_response :: "powerwall_error \<Rightarrow> nat device_response" where
  "failing_response err = healthy_response\<lparr>get_meters := Inl err\<rparr>"

definition with_password :: config where
  "with_password = \<lparr>ip_address = ''192.168.91.1'', password = Some ''hunter2''\<rparr>"

definition without_password :: config where
  "without_password = \<lparr>ip_address = ''192.168.91.1'', password = None\<rparr>"

text \<open>A cycle in which the first fetch is denied and so is the login that follows.\<close>

definition denied_cycle :: "nat cycle_input" where
  "denied_cycle =
     \<lparr>first_fetch = failing_response AccessDeniedError,
      relogin = Some AccessDeniedError,
      retry_fetch = healthy_response\<rparr>"

text \<open>
  A cycle in which the first fetch is denied, the login succeeds, and the fetch after it
  meets the given error; and a state in which three logins in a row have failed.
\<close>

definition failing_after_relogin :: "powerwall_error \<Rightarrow> nat cycle_input" where
  "failing_after_relogin err =
     \<lparr>first_fetch = failing_response AccessDeniedError,
      relogin = None,
      retry_fetch = failing_response err\<rparr>"

definition failing_at_first :: "powerwall_error \<Rightarrow> nat cycle_input" where
  "failing_at_first err =
     \<lparr>first_fetch = failing_response err,
      relogin = None,
      retry_fetch = healthy_response\<rparr>"

definition healthy_cycle :: "nat cycle_input" where
  "healthy_cycle =
     \<lparr>first_fetch = healthy_response, relogin = None, retry_fetch = healthy_response\<rparr>"

definition three_failures :: "nat runtime" where
  "three_failures =
     initial_runtime\<lparr>login_failed_count := 3, coordinator_data := Some healthy_snapshot\<rparr>"

definition meters_reading :: "int \<Rightarrow> meter_type \<Rightarrow> meter" where
  "meters_reading w t = \<lparr>flow_into = w\<rparr>"

text \<open>
  Two devices that differ only in the order in which they report their serial numbers.
\<close>

definition device_reporting :: "string list \<Rightarrow> (string, string) base_device" where
  "device_reporting serials =
     \<lparr>get_serial_numbers = Inr serials,
      get_site_info = Inr \<lparr>nominal_system_energy = 13500\<rparr>,
      get_status = Inr ''1.50.1'',
      get_device_type = Inr ''hec''\<rparr>"

definition sorted_base_info :: "(string, string) base_info" where
  "sorted_base_info =
     \<lparr>api_site_info = \<lparr>nominal_system_energy = 13500\<rparr>,
      api_status = ''1.50.1'',
      api_device_type = ''hec'',
      api_serial_numbers = [''TG000001'', ''TG000002'']\<rparr>"

section \<open>Facts about the primitives\<close>

lemma index_of_absent: "x \<notin> set xs \<Longrightarrow> index_of xs x = Inl ValueError"
  by (induction xs) auto

lemma index_of_first: "x \<notin> set ys \<Longrightarrow> index_of (ys @ x # zs) x = Inr (length ys)"
  by (induction ys) auto

lemma index_of_present: "x \<in> set xs \<Longrightarrow> \<exists>i. index_of xs x = Inr i"
  by (induction xs) auto

lemma str_split_nonempty: "str_split c s \<noteq> []"
  by (induction s) (auto split: list.splits)

lemma str_split_tokens: "w \<in> set (str_split c s) \<Longrightarrow> c \<notin> set w"
proof (induction s arbitrary: w)
  case Nil
  then show ?case by simp
next
  case (Cons x xs)
  then show ?case
    by (cases "str_split c xs") (auto split: if_splits simp: str_split_nonempty)
qed

lemma str_split_no_separator: "c \<notin> set x \<Longrightarrow> str_split c x = [x]"
  by (induction x) auto

lemma str_split_append: "c \<notin> set x \<Longrightarrow> str_split c (x @ c # r) = x # str_split c r"
  by (induction x) auto

lemma str_split_join:
  assumes "xs \<noteq> []" and "\<forall>x \<in> set xs. c \<notin> set x"
  shows "str_split c (str_join [c] xs) = xs"
  using assms
proof (induction "[c]" xs rule: str_join.induct)
  case 1
  then show ?case by simp
next
  case (2 x)
  then show ?case by (simp add: str_split_no_separator)
next
  case (3 x y ys)
  then show ?case by (simp add: str_split_append)
qed

lemma slice_from_nat: "slice_from xs (int n) = drop n xs"
  by (simp add: slice_from_def)

lemma slice_after_token:
  "slice_from (P @ t # X) (int (length (P @ t # X)) - 1 - int (length X) + 1) = X"
proof -
  have k: "int (length (P @ t # X)) - 1 - int (length X) + 1 = int (Suc (length P))"
    by simp
  have "slice_from (P @ t # X) (int (Suc (length P))) = X"
    by (simp only: slice_from_nat) simp
  with k show ?thesis by (simp only:)
qed

lemma str_int_13500: "str_int 13500 = ''13500''"
  by (simp add: str_int_def digit_char_def)

section \<open>The migrator\<close>

text \<open>
  The backward search finds the last occurrence of the energy token: whatever precedes it
  is dropped, and what follows it is the device suffix.
\<close>

lemma migrator_after_last_token:
  assumes parts: "str_split CHR ''_'' (unique_id e) = P @ str_int (nominal_system_energy si) # X"
    and not_prefixed: "take (length S) (P @ str_int (nominal_system_energy si) # X) \<noteq> S"
    and last_token: "str_int (nominal_system_energy si) \<notin> set X"
  shows "async_migrator S si e = Inr (Some (str_join ''_'' (S @ X)))"
proof -
  let ?t = "str_int (nominal_system_energy si)"
  have idx: "index_of (rev (P @ ?t # X)) ?t = Inr (length X)"
    using index_of_first [of ?t "rev X" "rev P"] last_token by simp
  have sl: "slice_from (P @ ?t # X) (int (length (P @ ?t # X)) - 1 - int (length X) + 1) = X"
    by (rule slice_after_token)
  show ?thesis
    unfolding async_migrator_def Let_def parts
    using not_prefixed idx sl by simp
qed

lemma migrator_prefixed:
  "take (length S) (str_split CHR ''_'' (unique_id e)) = S \<Longrightarrow> async_migrator S si e = Inr None"
  by (simp add: async_migrator_def Let_def)

lemma migrator_token_absent:
  assumes "take (length S) (str_split CHR ''_'' (unique_id e)) \<noteq> S"
    and "str_int (nominal_system_energy si) \<notin> set (str_split CHR ''_'' (unique_id e))"
  shows "async_migrator S si e = Inl ValueError"
  using assms
    index_of_absent [of "str_int (nominal_system_energy si)"
                        "rev (str_split CHR ''_'' (unique_id e))"]
  by (simp add: async_migrator_def Let_def)

lemma migrator_token_present:
  assumes "str_int (nominal_system_energy si) \<in> set (str_split CHR ''_'' (unique_id e))"
  shows "\<exists>r. async_migrator S si e = Inr r"
proof -
  obtain i where
    "index_of (rev (str_split CHR ''_'' (unique_id e))) (str_int (nominal_system_energy si)) = Inr i"
    using assms
      index_of_present [of "str_int (nominal_system_energy si)"
                           "rev (str_split CHR ''_'' (unique_id e))"]
    by auto
  then show ?thesis by (simp add: async_migrator_def Let_def)
qed

text \<open>
  A rewritten identifier is recognised as migrated when it is read back, provided no
  serial number contains an underscore (the tokens of a suffix never do).
\<close>

lemma migrated_identifier_is_prefixed:
  assumes serials: "\<forall>t \<in> set S. CHR ''_'' \<notin> set t"
    and suffix: "\<forall>t \<in> set X. CHR ''_'' \<notin> set t"
  shows "async_migrator S si (e\<lparr>unique_id := str_join ''_'' (S @ X)\<rparr>) = Inr None"
proof (cases "S @ X = []")
  case True
  then show ?thesis by (simp add: async_migrator_def Let_def)
next
  case False
  have "str_split CHR ''_'' (str_join ''_'' (S @ X)) = S @ X"
    using str_split_join [of "S @ X" "CHR ''_''"] False serials suffix by auto
  then show ?thesis by (simp add: async_migrator_def Let_def)
qed

text \<open>
  C1, as the specification states it, fails when the suffix itself contains the energy
  token: the search runs from the end, so for the identifier \<open>13500_13500_inverter\<close>, whose
  tokens are the energy token followed by the suffix \<open>13500, inverter\<close>, the rewrite keeps
  only \<open>inverter\<close> after the serial numbers and not the whole suffix. Nor is the migration
  idempotent for every serial-number list: with the single serial \<open>A_B\<close>, the identifier
  \<open>13500_x\<close> is rewritten to \<open>A_B_x\<close>, whose tokens \<open>A, B, x\<close> do not start with the serial,
  so migrating it again raises \<open>ValueError\<close>.
\<close>

theorem migrator_suffix_holding_token_counterexample:
  "str_split CHR ''_'' ''13500_13500_inverter'' = str_int 13500 # [''13500'', ''inverter'']
   \<and> take (length [''TG000001'', ''TG000002'']) (str_int 13500 # [''13500'', ''inverter''])
       \<noteq> [''TG000001'', ''TG000002'']
   \<and> async_migrator [''TG000001'', ''TG000002''] \<lparr>nominal_system_energy = 13500\<rparr>
        \<lparr>unique_id = ''13500_13500_inverter''\<rparr> = Inr (Some ''TG000001_TG000002_inverter'')
   \<and> async_migrator [''TG000001'', ''TG000002''] \<lparr>nominal_system_energy = 13500\<rparr>
        \<lparr>unique_id = ''13500_13500_inverter''\<rparr>
       \<noteq> Inr (Some (str_join ''_'' ([''TG000001'', ''TG000002''] @ [''13500'', ''inverter''])))
   \<and> async_migrator [''A_B''] \<lparr>nominal_system_energy = 13500\<rparr> \<lparr>unique_id = ''13500_x''\<rparr>
       = Inr (Some ''A_B_x'')
   \<and> async_migrator [''A_B''] \<lparr>nominal_system_energy = 13500\<rparr> \<lparr>unique_id = ''A_B_x''\<rparr>
       = Inl ValueError"
  by (simp add: async_migrator_def Let_def str_int_def digit_char_def slice_from_def)

text \<open>
  C1, amended: for every serial-number list \<open>S\<close>, nominal energy \<open>E\<close> and suffix \<open>X\<close> that
  does not itself contain the token \<open>str(E)\<close>, the migrator rewrites an identifier whose
  token list is \<open>str(E)\<close> followed by \<open>X\<close>, and does not start with \<open>S\<close>, to exactly \<open>S\<close>
  followed by \<open>X\<close>, joined by underscores. An identifier whose token list starts with \<open>S\<close>
  gets no rewrite. When no serial number contains an underscore, the rewritten identifier
  is such an identifier, so migrating it again gives no rewrite: for such serial numbers
  the migration is idempotent. With the serials \<open>TG000001\<close>, \<open>TG000002\<close> and the energy
  13500, \<open>13500_inverter\<close> becomes \<open>TG000001_TG000002_inverter\<close>.
\<close>

theorem migrator_rewrites_legacy_identifier:
  "(str_split CHR ''_'' (unique_id e) = str_int (nominal_system_energy si) # X
      \<and> take (length S) (str_int (nominal_system_energy si) # X) \<noteq> S
      \<and> str_int (nominal_system_energy si) \<notin> set X
    \<longrightarrow> async_migrator S si e = Inr (Some (str_join ''_'' (S @ X))))
   \<and> (str_split CHR ''_'' (unique_id e) = str_int (nominal_system_energy si) # X
      \<and> take (length S) (str_int (nominal_system_energy si) # X) \<noteq> S
      \<and> str_int (nominal_system_energy si) \<notin> set X
      \<and> (\<forall>t \<in> set S. CHR ''_'' \<notin> set t)
    \<longrightarrow> async_migrator S si (e\<lparr>unique_id := str_join ''_'' (S @ X)\<rparr>) = Inr None)
   \<and> (take (length S) (str_split CHR ''_'' (unique_id e')) = S
    \<longrightarrow> async_migrator S si e' = Inr None)
   \<and> async_migrator [''TG000001'', ''TG000002''] \<lparr>nominal_system_energy = 13500\<rparr>
        \<lparr>unique_id = ''13500_inverter''\<rparr> = Inr (Some ''TG000001_TG000002_inverter'')"
proof (intro conjI impI)
  assume h: "str_split CHR ''_'' (unique_id e) = str_int (nominal_system_energy si) # X
      \<and> take (length S) (str_int (nominal_system_energy si) # X) \<noteq> S
      \<and> str_int (nominal_system_energy si) \<notin> set X"
  then show "async_migrator S si e = Inr (Some (str_join ''_'' (S @ X)))"
    using migrator_after_last_token [of e "[]" si X S] by simp
next
  assume h: "str_split CHR ''_'' (unique_id e) = str_int (nominal_system_energy si) # X
      \<and> take (length S) (str_int (nominal_system_energy si) # X) \<noteq> S
      \<and> str_int (nominal_system_energy si) \<notin> set X
      \<and> (\<forall>t \<in> set S. CHR ''_'' \<notin> set t)"
  have "\<forall>t \<in> set X. CHR ''_'' \<notin> set t"
  proof
    fix t assume "t \<in> set X"
    then have "t \<in> set (str_split CHR ''_'' (unique_id e))" using h by simp
    then show "CHR ''_'' \<notin> set t" by (rule str_split_tokens)
  qed
  with h show "async_migrator S si (e\<lparr>unique_id := str_join ''_'' (S @ X)\<rparr>) = Inr None"
    using migrated_identifier_is_prefixed [of S X si e] by blast
next
  assume "take (length S) (str_split CHR ''_'' (unique_id e')) = S"
  then show "async_migrator S si e' = Inr None" by (rule migrator_prefixed)
next
  show "async_migrator [''TG000001'', ''TG000002''] \<lparr>nominal_system_energy = 13500\<rparr>
        \<lparr>unique_id = ''13500_inverter''\<rparr> = Inr (Some ''TG000001_TG000002_inverter'')"
    by (simp add: async_migrator_def Let_def str_int_def digit_char_def slice_from_def)
qed

theorem migrator_rewrites_legacy_identifier_witness:
  "str_split CHR ''_'' ''13500_gateway_main'' = str_int 13500 # [''gateway'', ''main'']
   \<and> take (length [''TG000001'', ''TG000002'']) (str_int 13500 # [''gateway'', ''main''])
       \<noteq> [''TG000001'', ''TG000002'']
   \<and> str_int 13500 \<notin> set [''gateway'', ''main'']
   \<and> CHR ''_'' \<notin> set ''TG000001'' \<and> CHR ''_'' \<notin> set ''TG000002''
   \<and> async_migrator [''TG000001'', ''TG000002''] \<lparr>nominal_system_energy = 13500\<rparr>
        \<lparr>unique_id = ''13500_gateway_main''\<rparr> = Inr (Some ''TG000001_TG000002_gateway_main'')
   \<and> async_migrator [''TG000001'', ''TG000002''] \<lparr>nominal_system_energy = 13500\<rparr>
        (\<lparr>unique_id = ''13500_gateway_main''\<rparr>
           \<lparr>unique_id := str_join ''_'' ([''TG000001'', ''TG000002''] @ [''gateway'', ''main''])\<rparr>)
       = Inr None
   \<and> str_join ''_'' ([''TG000001'', ''TG000002''] @ [''gateway'', ''main''])
       = ''TG000001_TG000002_gateway_main''
   \<and> take (length [''TG000001'', ''TG000002''])
        (str_split CHR ''_'' ''TG000001_TG000002_gateway_main'') = [''TG000001'', ''TG000002'']
   \<and> async_migrator [''TG000001'', ''TG000002''] \<lparr>nominal_system_energy = 13500\<rparr>
        \<lparr>unique_id = ''TG000001_TG000002_gateway_main''\<rparr> = Inr None"
  using migrator_rewrites_legacy_identifier
    [of "\<lparr>unique_id = ''13500_gateway_main''\<rparr>" "\<lparr>nominal_system_energy = 13500\<rparr>"
        "[''gateway'', ''main'']" "[''TG000001'', ''TG000002'']"
        "\<lparr>unique_id = ''TG000001_TG000002_gateway_main''\<rparr>"]
  by (simp add: str_int_13500)

text \<open>
  C9: the migrator is partial. For an identifier whose token list does not start with the
  serial numbers and does not contain the nominal-energy token, the backward search raises
  \<open>ValueError\<close> instead of leaving the identifier unchanged. The migrator returns exactly when
  the identifier is already prefixed or contains the token.
\<close>

theorem migrator_partial:
  "(take (length S) (str_split CHR ''_'' (unique_id e)) \<noteq> S
      \<and> str_int (nominal_system_energy si) \<notin> set (str_split CHR ''_'' (unique_id e))
    \<longrightarrow> async_migrator S si e = Inl ValueError)
   \<and> ((\<exists>r. async_migrator S si e = Inr r) \<longleftrightarrow>
        (take (length S) (str_split CHR ''_'' (unique_id e)) = S
         \<or> str_int (nominal_system_energy si) \<in> set (str_split CHR ''_'' (unique_id e))))"
proof (intro conjI impI)
  assume "take (length S) (str_split CHR ''_'' (unique_id e)) \<noteq> S
      \<and> str_int (nominal_system_energy si) \<notin> set (str_split CHR ''_'' (unique_id e))"
  then show "async_migrator S si e = Inl ValueError"
    using migrator_token_absent [of S e si] by simp
next
  show "(\<exists>r. async_migrator S si e = Inr r) \<longleftrightarrow>
        (take (length S) (str_split CHR ''_'' (unique_id e)) = S
         \<or> str_int (nominal_system_energy si) \<in> set (str_split CHR ''_'' (unique_id e)))"
  proof (cases "take (length S) (str_split CHR ''_'' (unique_id e)) = S")
    case True
    then show ?thesis by (simp add: migrator_prefixed)
  next
    case not_prefixed: False
    show ?thesis
    proof (cases "str_int (nominal_system_energy si) \<in> set (str_split CHR ''_'' (unique_id e))")
      case True
      then show ?thesis using migrator_token_present [of si e S] by simp
    next
      case False
      with not_prefixed migrator_token_absent [of S e si] show ?thesis by simp
    qed
  qed
qed

theorem migrator_partial_witness:
  "take (length [''TG000001'', ''TG000002'']) (str_split CHR ''_'' ''mysite_inverter'')
       \<noteq> [''TG000001'', ''TG000002'']
   \<and> str_int 13500 \<notin> set (str_split CHR ''_'' ''mysite_inverter'')
   \<and> async_migrator [''TG000001'', ''TG000002''] \<lparr>nominal_system_energy = 13500\<rparr>
        \<lparr>unique_id = ''mysite_inverter''\<rparr> = Inl ValueError"
  using migrator_partial
    [of "[''TG000001'', ''TG000002'']" "\<lparr>unique_id = ''mysite_inverter''\<rparr>"
        "\<lparr>nominal_system_energy = 13500\<rparr>"]
  by (simp add: str_int_13500)

section \<open>The base information and the sensors\<close>

lemma call_base_info_serial_numbers:
  assumes "call_base_info d = Inr b" and "get_serial_numbers d = Inr xs"
  shows "api_serial_numbers b = sort xs"
  using assms by (auto simp: call_base_info_def Let_def split: sum.splits)

lemma sort_permutation:
  fixes xs ys :: "string list"
  assumes "mset xs = mset ys"
  shows "sort xs = sort ys"
proof (rule properties_for_sort)
  show "mset (sort ys) = mset xs" using assms by simp
  show "sorted (sort ys)" by simp
qed

lemma call_base_info_reporting:
  "call_base_info (device_reporting [''TG000002'', ''TG000001'']) = Inr sorted_base_info"
  "call_base_info (device_reporting [''TG000001'', ''TG000002'']) = Inr sorted_base_info"
  by (simp_all add: call_base_info_def device_reporting_def sorted_base_info_def Let_def
        less_eq_char_def less_char_def)

text \<open>
  C7: the serial numbers are sorted by \<open>call_base_info\<close> before anything is built from them.
  When two devices report the same serial numbers in different orders, the base data holds
  the same sorted list, so the migrator rewrites every registered identifier the same way,
  and every identifier derived from the serial numbers (whatever the derivation \<open>mk\<close> of the
  base identifier is) is the same.
\<close>

theorem serial_numbers_order_independent:
  assumes "get_serial_numbers d1 = Inr xs" and "get_serial_numbers d2 = Inr ys"
    and "mset xs = mset ys"
    and "call_base_info d1 = Inr b1" and "call_base_info d2 = Inr b2"
  shows "sorted (api_serial_numbers b1)
    \<and> api_serial_numbers b1 = sort xs
    \<and> api_serial_numbers b1 = api_serial_numbers b2
    \<and> async_migrator (api_serial_numbers b1) si e = async_migrator (api_serial_numbers b2) si e
    \<and> (api_site_info b1 = api_site_info b2
         \<longrightarrow> migrate_old_unique_ids b1 e = migrate_old_unique_ids b2 e)
    \<and> running_unique_id (mk (api_serial_numbers b1))
         = running_unique_id (mk (api_serial_numbers b2))
    \<and> connected_unique_id (mk (api_serial_numbers b1))
         = connected_unique_id (mk (api_serial_numbers b2))
    \<and> grid_services_active_unique_id (mk (api_serial_numbers b1))
         = grid_services_active_unique_id (mk (api_serial_numbers b2))
    \<and> grid_status_unique_id (mk (api_serial_numbers b1))
         = grid_status_unique_id (mk (api_serial_numbers b2))
    \<and> charging_unique_id (mk (api_serial_numbers b1))
         = charging_unique_id (mk (api_serial_numbers b2))"
proof -
  have s1: "api_serial_numbers b1 = sort xs"
    using assms(4) assms(1) by (rule call_base_info_serial_numbers)
  have s2: "api_serial_numbers b2 = sort ys"
    using assms(5) assms(2) by (rule call_base_info_serial_numbers)
  have same: "api_serial_numbers b1 = api_serial_numbers b2"
    using s1 s2 sort_permutation [OF assms(3)] by simp
  have "sorted (api_serial_numbers b1)" using s1 by simp
  then show ?thesis
    using s1 same by (simp add: migrate_old_unique_ids_def Let_def)
qed

theorem serial_numbers_order_independent_witness:
  "get_serial_numbers (device_reporting [''TG000002'', ''TG000001''])
       = Inr [''TG000002'', ''TG000001'']
   \<and> get_serial_numbers (device_reporting [''TG000001'', ''TG000002''])
       = Inr [''TG000001'', ''TG000002'']
   \<and> mset [''TG000002'', ''TG000001''] = mset [''TG000001'', ''TG000002'']
   \<and> call_base_info (device_reporting [''TG000002'', ''TG000001'']) = Inr sorted_base_info
   \<and> call_base_info (device_reporting [''TG000001'', ''TG000002'']) = Inr sorted_base_info
   \<and> sorted (api_serial_numbers sorted_base_info)
   \<and> api_serial_numbers sorted_base_info = sort [''TG000002'', ''TG000001'']"
proof -
  have r: "get_serial_numbers (device_reporting [''TG000002'', ''TG000001''])
       = Inr [''TG000002'', ''TG000001'']"
    and o: "get_serial_numbers (device_reporting [''TG000001'', ''TG000002''])
       = Inr [''TG000001'', ''TG000002'']"
    by (simp_all add: device_reporting_def)
  have m: "mset [''TG000002'', ''TG000001''] = mset [''TG000001'', ''TG000002'']"
    by (simp add: add_mset_commute)
  show ?thesis
    using serial_numbers_order_independent
      [OF r o m call_base_info_reporting(1) call_base_info_reporting(2)]
      r o m call_base_info_reporting
    by simp
qed

text \<open>
  C5: the battery-charging sensor is on exactly when the net flow into the battery meter
  is strictly greater than 100; at exactly 100 and below it is off.
\<close>

theorem charging_sensor_threshold:
  "(charging_is_on (Some d) = Inr True
      \<longleftrightarrow> 100 < flow_into (get_meter (api_meters d) BATTERY))
   \<and> (flow_into (get_meter (api_meters d) BATTERY) \<le> 100
      \<longrightarrow> charging_is_on (Some d) = Inr False)"
  by (simp add: charging_is_on_def is_sending_to_def)

theorem charging_sensor_threshold_witness:
  "flow_into (get_meter (api_meters (healthy_snapshot\<lparr>api_meters := meters_reading 100\<rparr>))
       BATTERY) \<le> 100
   \<and> charging_is_on (Some (healthy_snapshot\<lparr>api_meters := meters_reading 100\<rparr>))
       = Inr False
   \<and> 100 < flow_into (get_meter (api_meters (healthy_snapshot\<lparr>api_meters := meters_reading 101\<rparr>))
       BATTERY)
   \<and> charging_is_on (Some (healthy_snapshot\<lparr>api_meters := meters_reading 101\<rparr>))
       = Inr True"
  using charging_sensor_threshold [of "healthy_snapshot\<lparr>api_meters := meters_reading 100\<rparr>"]
    charging_sensor_threshold [of "healthy_snapshot\<lparr>api_meters := meters_reading 101\<rparr>"]
  by (simp add: get_meter_def meters_reading_def)

section \<open>Single steps of the refresh\<close>

lemmas recreate_defs =
  recreate_powerwall_login_def close_http_session_def new_http_session_def new_power_wall_def
  store_power_wall_def store_http_session_def login_def

lemmas update_defs =
  async_update_data_def async_update_powerwall_data_def async_login_and_retry_update_data_def
  retry_handlers_def async_handle_api_changed_error_def MAX_LOGIN_FAILURES_def Let_def

lemma fetch_healthy: "fetch_powerwall_data healthy_response = Inr healthy_snapshot"
  by (simp add: fetch_powerwall_data_def healthy_response_def healthy_snapshot_def)

lemma fetch_failing: "fetch_powerwall_data (failing_response err) = Inl err"
  by (simp add: fetch_powerwall_data_def failing_response_def healthy_response_def)

lemma degraded_update:
  "api_changed s \<Longrightarrow> async_update_data cfg inp s = (Inr (coordinator_data s), s)"
  by (simp add: async_update_data_def)

lemma degraded_cycle:
  "api_changed s \<Longrightarrow> refresh_cycle cfg inp s = (Inr (coordinator_data s), s)"
  by (simp add: refresh_cycle_def degraded_update)

lemma degraded_cycles:
  "api_changed s \<Longrightarrow>
   refresh_cycles cfg inps s = (replicate (length inps) (Inr (coordinator_data s)), s)"
  by (induction inps) (simp_all add: degraded_cycle)

lemma first_unreachable:
  assumes "\<not> api_changed s"
    and "fetch_powerwall_data (first_fetch inp) = Inl PowerwallUnreachableError"
  shows "async_update_data cfg inp s =
     (Inl (UpdateFailed UnableToFetch), s\<lparr>events := events s @ [FetchAttempt (power_wall s)]\<rparr>)"
  using assms by (simp add: update_defs)

lemma first_drift:
  assumes "\<not> api_changed s"
    and "fetch_powerwall_data (first_fetch inp) = Inl MissingAttributeError"
  shows "async_update_data cfg inp s =
     (Inr (coordinator_data s),
      s\<lparr>events := events s @ [FetchAttempt (power_wall s), NoticeCreated],
        api_changed := True, login_failed_count := 0\<rparr>)"
  using assms by (simp add: update_defs)

lemma first_denied_no_password:
  assumes "\<not> api_changed s"
    and "fetch_powerwall_data (first_fetch inp) = Inl AccessDeniedError"
    and "password cfg = None"
  shows "async_update_data cfg inp s =
     (Inl ConfigEntryAuthFailed, s\<lparr>events := events s @ [FetchAttempt (power_wall s)]\<rparr>)"
  using assms by (simp add: update_defs)

lemma first_denied_retry:
  assumes "\<not> api_changed s"
    and "fetch_powerwall_data (first_fetch inp) = Inl AccessDeniedError"
    and "password cfg \<noteq> None"
  shows "async_update_data cfg inp s =
     async_login_and_retry_update_data inp
       (s\<lparr>events := events s @ [FetchAttempt (power_wall s)]\<rparr>)"
  using assms
  by (auto simp add: async_update_data_def async_update_powerwall_data_def Let_def)

lemma first_success:
  assumes "\<not> api_changed s" and "fetch_powerwall_data (first_fetch inp) = Inr d"
  shows "async_update_data cfg inp s =
     (Inr (Some d),
      s\<lparr>events := events s @ [FetchAttempt (power_wall s)], login_failed_count := 0\<rparr>)"
  using assms by (simp add: update_defs)

lemma retry_login_denied:
  assumes "relogin inp = Some AccessDeniedError"
  shows "fst (async_login_and_retry_update_data inp s) =
           (if login_failed_count s + 1 = MAX_LOGIN_FAILURES then Inl ConfigEntryAuthFailed
            else Inl (UpdateFailed (LoginAttemptFailed (login_failed_count s + 1))))
       \<and> login_failed_count (snd (async_login_and_retry_update_data inp s))
            = login_failed_count s + 1
       \<and> api_changed (snd (async_login_and_retry_update_data inp s)) = api_changed s
       \<and> coordinator_data (snd (async_login_and_retry_update_data inp s)) = coordinator_data s"
  using assms by (simp add: update_defs recreate_defs)

lemma retry_fetch_denied:
  assumes "relogin inp = None"
    and "fetch_powerwall_data (retry_fetch inp) = Inl AccessDeniedError"
  shows "fst (async_login_and_retry_update_data inp s) =
           (if login_failed_count s + 1 = MAX_LOGIN_FAILURES then Inl ConfigEntryAuthFailed
            else Inl (UpdateFailed (LoginAttemptFailed (login_failed_count s + 1))))
       \<and> login_failed_count (snd (async_login_and_retry_update_data inp s))
            = login_failed_count s + 1
       \<and> api_changed (snd (async_login_and_retry_update_data inp s)) = api_changed s
       \<and> coordinator_data (snd (async_login_and_retry_update_data inp s)) = coordinator_data s"
  using assms by (simp add: update_defs recreate_defs)

lemma retry_success:
  assumes "relogin inp = None" and "fetch_powerwall_data (retry_fetch inp) = Inr d"
  shows "fst (async_login_and_retry_update_data inp s) = Inr (Some d)
       \<and> login_failed_count (snd (async_login_and_retry_update_data inp s)) = 0"
  using assms by (simp add: update_defs recreate_defs)

lemma retry_unreachable:
  assumes "relogin inp = None"
    and "fetch_powerwall_data (retry_fetch inp) = Inl PowerwallUnreachableError"
  shows "fst (async_login_and_retry_update_data inp s) = Inl (UpdateFailed UnableToFetch)
       \<and> login_failed_count (snd (async_login_and_retry_update_data inp s))
            = login_failed_count s
       \<and> api_changed (snd (async_login_and_retry_update_data inp s)) = api_changed s
       \<and> coordinator_data (snd (async_login_and_retry_update_data inp s)) = coordinator_data s"
  using assms by (simp add: update_defs recreate_defs)

lemma retry_api_error:
  assumes "relogin inp = None" and "fetch_powerwall_data (retry_fetch inp) = Inl APIError"
  shows "fst (async_login_and_retry_update_data inp s)
            = Inl (UpdateFailed (UpdateFailedDueTo APIError))
       \<and> login_failed_count (snd (async_login_and_retry_update_data inp s))
            = login_failed_count s"
  using assms by (simp add: update_defs recreate_defs)

lemma retry_login_api_error:
  assumes "relogin inp = Some err" and "err \<noteq> AccessDeniedError" and "isinstance_APIError err"
  shows "fst (async_login_and_retry_update_data inp s)
            = Inl (UpdateFailed (UpdateFailedDueTo err))
       \<and> login_failed_count (snd (async_login_and_retry_update_data inp s))
            = login_failed_count s"
  using assms by (simp add: update_defs recreate_defs)

lemma retry_drift:
  assumes "relogin inp = None"
    and "fetch_powerwall_data (retry_fetch inp) = Inl MissingAttributeError"
  shows "fst (async_login_and_retry_update_data inp s) = Inr (coordinator_data s)
       \<and> api_changed (snd (async_login_and_retry_update_data inp s))
       \<and> coordinator_data (snd (async_login_and_retry_update_data inp s)) = coordinator_data s
       \<and> login_failed_count (snd (async_login_and_retry_update_data inp s)) = 0
       \<and> count_list (events (snd (async_login_and_retry_update_data inp s))) NoticeCreated
           = count_list (events s) NoticeCreated + 1"
  using assms by (simp add: update_defs recreate_defs)

section \<open>Failures that keep the snapshot\<close>

text \<open>
  C4: when a fetch of the cycle fails because the device is unreachable (the first fetch,
  or the fetch after a successful re-login), the update method raises \<open>UpdateFailed\<close> and
  the coordinator's snapshot after the cycle is the snapshot before it, whichever of the
  five calls of the fetch raised. The flag and the failure counter are untouched too.
\<close>

theorem unreachable_keeps_snapshot:
  assumes "\<not> api_changed s"
    and "fetch_powerwall_data (first_fetch inp) = Inl PowerwallUnreachableError
         \<or> (fetch_powerwall_data (first_fetch inp) = Inl AccessDeniedError
            \<and> password cfg \<noteq> None \<and> relogin inp = None
            \<and> fetch_powerwall_data (retry_fetch inp) = Inl PowerwallUnreachableError)"
  shows "fst (async_update_data cfg inp s) = Inl (UpdateFailed UnableToFetch)
    \<and> coordinator_data (snd (async_update_data cfg inp s)) = coordinator_data s
    \<and> fst (refresh_cycle cfg inp s) = Inl (UpdateFailed UnableToFetch)
    \<and> coordinator_data (snd (refresh_cycle cfg inp s)) = coordinator_data s
    \<and> login_failed_count (snd (refresh_cycle cfg inp s)) = login_failed_count s
    \<and> api_changed (snd (refresh_cycle cfg inp s)) = api_changed s"
proof -
  let ?s1 = "s\<lparr>events := events s @ [FetchAttempt (power_wall s)]\<rparr>"
  have u: "fst (async_update_data cfg inp s) = Inl (UpdateFailed UnableToFetch)
    \<and> coordinator_data (snd (async_update_data cfg inp s)) = coordinator_data s
    \<and> login_failed_count (snd (async_update_data cfg inp s)) = login_failed_count s
    \<and> api_changed (snd (async_update_data cfg inp s)) = api_changed s"
    using assms(2)
  proof
    assume "fetch_powerwall_data (first_fetch inp) = Inl PowerwallUnreachableError"
    then show ?thesis using first_unreachable [OF assms(1)] by simp
  next
    assume r: "fetch_powerwall_data (first_fetch inp) = Inl AccessDeniedError
            \<and> password cfg \<noteq> None \<and> relogin inp = None
            \<and> fetch_powerwall_data (retry_fetch inp) = Inl PowerwallUnreachableError"
    then have "async_update_data cfg inp s = async_login_and_retry_update_data inp ?s1"
      using first_denied_retry [OF assms(1)] by simp
    then show ?thesis using r retry_unreachable [of inp ?s1] by simp
  qed
  then show ?thesis
    by (cases "async_update_data cfg inp s") (simp add: refresh_cycle_def)
qed

theorem unreachable_keeps_snapshot_witness:
  "\<not> api_changed three_failures
   \<and> fetch_powerwall_data (first_fetch (failing_at_first PowerwallUnreachableError))
       = Inl PowerwallUnreachableError
   \<and> fst (refresh_cycle with_password (failing_at_first PowerwallUnreachableError) three_failures)
       = Inl (UpdateFailed UnableToFetch)
   \<and> coordinator_data
        (snd (refresh_cycle with_password (failing_at_first PowerwallUnreachableError)
               three_failures))
       = Some healthy_snapshot"
  using unreachable_keeps_snapshot
    [of three_failures "failing_at_first PowerwallUnreachableError" with_password]
  by (simp add: three_failures_def initial_runtime_def failing_at_first_def fetch_failing)

text \<open>
  C6: without a configured password, an access-denied answer to the fetch raises
  \<open>ConfigEntryAuthFailed\<close> in that same cycle. The only effect of the cycle is the one fetch
  attempt: no session is closed or created, no login is attempted, and the failure counter
  keeps its value.
\<close>

theorem access_denied_without_credential_is_terminal:
  assumes "password cfg = None" and "\<not> api_changed s"
    and "fetch_powerwall_data (first_fetch inp) = Inl AccessDeniedError"
  shows "async_update_data cfg inp s =
           (Inl ConfigEntryAuthFailed, s\<lparr>events := events s @ [FetchAttempt (power_wall s)]\<rparr>)
    \<and> refresh_cycle cfg inp s =
           (Inl ConfigEntryAuthFailed, s\<lparr>events := events s @ [FetchAttempt (power_wall s)]\<rparr>)
    \<and> login_failed_count (snd (refresh_cycle cfg inp s)) = login_failed_count s"
  using first_denied_no_password [OF assms(2) assms(3) assms(1)]
  by (simp add: refresh_cycle_def)

theorem access_denied_without_credential_is_terminal_witness:
  "password without_password = None
   \<and> \<not> api_changed three_failures
   \<and> fetch_powerwall_data (first_fetch (failing_at_first AccessDeniedError))
       = Inl AccessDeniedError
   \<and> fst (refresh_cycle without_password (failing_at_first AccessDeniedError) three_failures)
       = Inl ConfigEntryAuthFailed
   \<and> events (snd (refresh_cycle without_password (failing_at_first AccessDeniedError)
                    three_failures))
       = [FetchAttempt 0]
   \<and> login_failed_count
        (snd (refresh_cycle without_password (failing_at_first AccessDeniedError)
               three_failures))
       = 3"
  using access_denied_without_credential_is_terminal
    [of without_password three_failures "failing_at_first AccessDeniedError"]
  by (simp add: three_failures_def initial_runtime_def failing_at_first_def fetch_failing
        without_password_def)

section \<open>Schema drift\<close>

lemma drift_cycle:
  assumes "\<not> api_changed s"
    and "fetch_powerwall_data (first_fetch inp) = Inl MissingAttributeError
         \<or> (fetch_powerwall_data (first_fetch inp) = Inl AccessDeniedError
            \<and> password cfg \<noteq> None \<and> relogin inp = None
            \<and> fetch_powerwall_data (retry_fetch inp) = Inl MissingAttributeError)"
  shows "fst (refresh_cycle cfg inp s) = Inr (coordinator_data s)
    \<and> api_changed (snd (refresh_cycle cfg inp s))
    \<and> coordinator_data (snd (refresh_cycle cfg inp s)) = coordinator_data s
    \<and> count_list (events (snd (refresh_cycle cfg inp s))) NoticeCreated
         = count_list (events s) NoticeCreated + 1
    \<and> fst (async_update_data cfg inp s) = Inr (coordinator_data s)"
proof -
  let ?s1 = "s\<lparr>events := events s @ [FetchAttempt (power_wall s)]\<rparr>"
  have u: "fst (async_update_data cfg inp s) = Inr (coordinator_data s)
    \<and> api_changed (snd (async_update_data cfg inp s))
    \<and> coordinator_data (snd (async_update_data cfg inp s)) = coordinator_data s
    \<and> count_list (events (snd (async_update_data cfg inp s))) NoticeCreated
         = count_list (events s) NoticeCreated + 1"
    using assms(2)
  proof
    assume "fetch_powerwall_data (first_fetch inp) = Inl MissingAttributeError"
    then show ?thesis using first_drift [OF assms(1)] by simp
  next
    assume r: "fetch_powerwall_data (first_fetch inp) = Inl AccessDeniedError
            \<and> password cfg \<noteq> None \<and> relogin inp = None
            \<and> fetch_powerwall_data (retry_fetch inp) = Inl MissingAttributeError"
    then have "async_update_data cfg inp s = async_login_and_retry_update_data inp ?s1"
      using first_denied_retry [OF assms(1)] by simp
    then show ?thesis using r retry_drift [of inp ?s1] by simp
  qed
  then show ?thesis
    by (cases "async_update_data cfg inp s") (simp add: refresh_cycle_def)
qed

text \<open>
  C3: when a fetch of cycle N meets a missing attribute, the cycle sets the flag, returns
  the snapshot cached before it and creates the notice once. Every later cycle, whatever
  the device would answer, returns that same snapshot and leaves the whole state as cycle
  N left it: no fetch is attempted and no further notice is created.
\<close>

theorem schema_drift_degrades:
  assumes "\<not> api_changed s"
    and "fetch_powerwall_data (first_fetch inp) = Inl MissingAttributeError
         \<or> (fetch_powerwall_data (first_fetch inp) = Inl AccessDeniedError
            \<and> password cfg \<noteq> None \<and> relogin inp = None
            \<and> fetch_powerwall_data (retry_fetch inp) = Inl MissingAttributeError)"
  shows "api_changed (snd (refresh_cycle cfg inp s))
    \<and> fst (async_update_data cfg inp s) = Inr (coordinator_data s)
    \<and> fst (refresh_cycle cfg inp s) = Inr (coordinator_data s)
    \<and> coordinator_data (snd (refresh_cycle cfg inp s)) = coordinator_data s
    \<and> async_update_data cfg next_inp (snd (refresh_cycle cfg inp s))
         = (Inr (coordinator_data s), snd (refresh_cycle cfg inp s))
    \<and> count_list (events (snd (refresh_cycle cfg inp s))) NoticeCreated
         = count_list (events s) NoticeCreated + 1
    \<and> refresh_cycles cfg later (snd (refresh_cycle cfg inp s))
         = (replicate (length later) (Inr (coordinator_data s)), snd (refresh_cycle cfg inp s))
    \<and> events (snd (refresh_cycles cfg later (snd (refresh_cycle cfg inp s))))
         = events (snd (refresh_cycle cfg inp s))
    \<and> count_list (events (snd (refresh_cycles cfg later (snd (refresh_cycle cfg inp s)))))
         NoticeCreated
         = count_list (events s) NoticeCreated + 1"
proof -
  note d = drift_cycle [OF assms]
  have "refresh_cycles cfg later (snd (refresh_cycle cfg inp s))
         = (replicate (length later) (Inr (coordinator_data s)), snd (refresh_cycle cfg inp s))"
    using d degraded_cycles [of "snd (refresh_cycle cfg inp s)" cfg later] by simp
  moreover have "async_update_data cfg next_inp (snd (refresh_cycle cfg inp s))
         = (Inr (coordinator_data s), snd (refresh_cycle cfg inp s))"
    using d degraded_update [of "snd (refresh_cycle cfg inp s)" cfg next_inp] by simp
  ultimately show ?thesis using d by simp
qed

theorem schema_drift_degrades_witness:
  "\<not> api_changed three_failures
   \<and> fetch_powerwall_data (first_fetch (failing_at_first MissingAttributeError))
       = Inl MissingAttributeError
   \<and> fst (refresh_cycle with_password (failing_at_first MissingAttributeError) three_failures)
       = Inr (Some healthy_snapshot)
   \<and> fst (refresh_cycles with_password [healthy_cycle, healthy_cycle]
            (snd (refresh_cycle with_password (failing_at_first MissingAttributeError)
                   three_failures)))
       = [Inr (Some healthy_snapshot), Inr (Some healthy_snapshot)]
   \<and> count_list
        (events (snd (refresh_cycles with_password [healthy_cycle, healthy_cycle]
            (snd (refresh_cycle with_password (failing_at_first MissingAttributeError)
                   three_failures)))))
        NoticeCreated = 1"
  using schema_drift_degrades
    [of three_failures "failing_at_first MissingAttributeError" with_password
        healthy_cycle "[healthy_cycle, healthy_cycle]"]
  by (simp add: three_failures_def initial_runtime_def failing_at_first_def fetch_failing)

text \<open>
  C10: when the very first cycle meets a missing attribute, no refresh has stored a
  snapshot yet, so the coordinator's data is \<open>None\<close>; that cycle and every later one return
  \<open>None\<close>, and the data stays \<open>None\<close>. The state setup leaves is such a state.
\<close>

theorem drift_on_first_cycle_returns_none:
  fixes s :: "'c runtime"
  assumes "coordinator_data s = None" and "\<not> api_changed s"
    and "fetch_powerwall_data (first_fetch inp) = Inl MissingAttributeError
         \<or> (fetch_powerwall_data (first_fetch inp) = Inl AccessDeniedError
            \<and> password cfg \<noteq> None \<and> relogin inp = None
            \<and> fetch_powerwall_data (retry_fetch inp) = Inl MissingAttributeError)"
  shows "fst (async_update_data cfg inp s) = Inr None
    \<and> fst (refresh_cycle cfg inp s) = Inr None
    \<and> fst (refresh_cycles cfg later (snd (refresh_cycle cfg inp s)))
         = replicate (length later) (Inr None)
    \<and> coordinator_data (snd (refresh_cycles cfg later (snd (refresh_cycle cfg inp s)))) = None
    \<and> coordinator_data (initial_runtime :: 'c runtime) = None
    \<and> \<not> api_changed (initial_runtime :: 'c runtime)"
proof -
  note d = drift_cycle [OF assms(2) assms(3)]
  have "refresh_cycles cfg later (snd (refresh_cycle cfg inp s))
         = (replicate (length later) (Inr (coordinator_data s)), snd (refresh_cycle cfg inp s))"
    using d degraded_cycles [of "snd (refresh_cycle cfg inp s)" cfg later] by simp
  then show ?thesis using d assms(1) by (simp add: initial_runtime_def)
qed

theorem drift_on_first_cycle_returns_none_witness:
  "coordinator_data (initial_runtime :: nat runtime) = None
   \<and> \<not> api_changed (initial_runtime :: nat runtime)
   \<and> fetch_powerwall_data (first_fetch (failing_at_first MissingAttributeError))
       = Inl MissingAttributeError
   \<and> fst (refresh_cycle with_password (failing_at_first MissingAttributeError) initial_runtime)
       = Inr None
   \<and> fst (refresh_cycles with_password [healthy_cycle, healthy_cycle, healthy_cycle]
            (snd (refresh_cycle with_password (failing_at_first MissingAttributeError)
                   initial_runtime)))
       = [Inr None, Inr None, Inr None]"
  using drift_on_first_cycle_returns_none
    [of initial_runtime "failing_at_first MissingAttributeError" with_password
        "[healthy_cycle, healthy_cycle, healthy_cycle]"]
  by (simp add: initial_runtime_def failing_at_first_def fetch_failing)

section \<open>The failure counter\<close>

lemma cycle_through_retry:
  assumes "\<not> api_changed s"
    and "fetch_powerwall_data (first_fetch inp) = Inl AccessDeniedError"
    and "password cfg \<noteq> None"
  shows "fst (refresh_cycle cfg inp s)
           = fst (async_login_and_retry_update_data inp
                   (s\<lparr>events := events s @ [FetchAttempt (power_wall s)]\<rparr>))
    \<and> login_failed_count (snd (refresh_cycle cfg inp s))
           = login_failed_count (snd (async_login_and_retry_update_data inp
                   (s\<lparr>events := events s @ [FetchAttempt (power_wall s)]\<rparr>)))
    \<and> api_changed (snd (refresh_cycle cfg inp s))
           = api_changed (snd (async_login_and_retry_update_data inp
                   (s\<lparr>events := events s @ [FetchAttempt (power_wall s)]\<rparr>)))"
  unfolding refresh_cycle_def first_denied_retry [OF assms]
  by (cases "async_login_and_retry_update_data inp
               (s\<lparr>events := events s @ [FetchAttempt (power_wall s)]\<rparr>)")
     (auto split: sum.splits)

lemma denied_cycle_step:
  assumes pw: "password cfg \<noteq> None" and t: "\<not> api_changed t"
    and f: "fetch_powerwall_data (first_fetch inp) = Inl AccessDeniedError"
    and r: "relogin inp = Some AccessDeniedError
            \<or> (relogin inp = None
               \<and> fetch_powerwall_data (retry_fetch inp) = Inl AccessDeniedError)"
  shows "fst (refresh_cycle cfg inp t) =
           (if login_failed_count t + 1 = MAX_LOGIN_FAILURES then Inl ConfigEntryAuthFailed
            else Inl (UpdateFailed (LoginAttemptFailed (login_failed_count t + 1))))
       \<and> login_failed_count (snd (refresh_cycle cfg inp t)) = login_failed_count t + 1
       \<and> \<not> api_changed (snd (refresh_cycle cfg inp t))"
proof -
  let ?t1 = "t\<lparr>events := events t @ [FetchAttempt (power_wall t)]\<rparr>"
  from r have "fst (async_login_and_retry_update_data inp ?t1) =
         (if login_failed_count ?t1 + 1 = MAX_LOGIN_FAILURES then Inl ConfigEntryAuthFailed
          else Inl (UpdateFailed (LoginAttemptFailed (login_failed_count ?t1 + 1))))
     \<and> login_failed_count (snd (async_login_and_retry_update_data inp ?t1))
          = login_failed_count ?t1 + 1
     \<and> api_changed (snd (async_login_and_retry_update_data inp ?t1)) = api_changed ?t1"
    using retry_login_denied [of inp ?t1] retry_fetch_denied [of inp ?t1] by blast
  then show ?thesis
    using t cycle_through_retry [OF t f pw] by simp
qed

lemma consecutive_denials:
  assumes pw: "password cfg \<noteq> None" and na: "\<not> api_changed s"
    and z: "login_failed_count s = 0"
    and d: "\<forall>inp \<in> set inps.
              fetch_powerwall_data (first_fetch inp) = Inl AccessDeniedError
              \<and> (relogin inp = Some AccessDeniedError
                 \<or> (relogin inp = None
                    \<and> fetch_powerwall_data (retry_fetch inp) = Inl AccessDeniedError))"
    and len: "length inps = 5"
  shows "fst (refresh_cycles cfg inps s) =
     [Inl (UpdateFailed (LoginAttemptFailed 1)), Inl (UpdateFailed (LoginAttemptFailed 2)),
      Inl (UpdateFailed (LoginAttemptFailed 3)), Inl (UpdateFailed (LoginAttemptFailed 4)),
      Inl ConfigEntryAuthFailed]"
proof -
  note step = denied_cycle_step [OF pw]
  from len obtain i1 i2 i3 i4 i5 where inps: "inps = [i1, i2, i3, i4, i5]"
    by (auto simp: length_Suc_conv eval_nat_numeral)
  obtain r1 s1 where c1: "refresh_cycle cfg i1 s = (r1, s1)"
    by (cases "refresh_cycle cfg i1 s")
  obtain r2 s2 where c2: "refresh_cycle cfg i2 s1 = (r2, s2)"
    by (cases "refresh_cycle cfg i2 s1")
  obtain r3 s3 where c3: "refresh_cycle cfg i3 s2 = (r3, s3)"
    by (cases "refresh_cycle cfg i3 s2")
  obtain r4 s4 where c4: "refresh_cycle cfg i4 s3 = (r4, s4)"
    by (cases "refresh_cycle cfg i4 s3")
  obtain r5 s5 where c5: "refresh_cycle cfg i5 s4 = (r5, s5)"
    by (cases "refresh_cycle cfg i5 s4")
  have p1: "r1 = Inl (UpdateFailed (LoginAttemptFailed 1)) \<and> login_failed_count s1 = 1
            \<and> \<not> api_changed s1"
    using step [of s i1] na z c1 d inps by (simp add: MAX_LOGIN_FAILURES_def)
  have p2: "r2 = Inl (UpdateFailed (LoginAttemptFailed 2)) \<and> login_failed_count s2 = 2
            \<and> \<not> api_changed s2"
    using step [of s1 i2] p1 c2 d inps by (simp add: MAX_LOGIN_FAILURES_def)
  have p3: "r3 = Inl (UpdateFailed (LoginAttemptFailed 3)) \<and> login_failed_count s3 = 3
            \<and> \<not> api_changed s3"
    using step [of s2 i3] p2 c3 d inps by (simp add: MAX_LOGIN_FAILURES_def)
  have p4: "r4 = Inl (UpdateFailed (LoginAttemptFailed 4)) \<and> login_failed_count s4 = 4
            \<and> \<not> api_changed s4"
    using step [of s3 i4] p3 c4 d inps by (simp add: MAX_LOGIN_FAILURES_def)
  have p5: "r5 = Inl ConfigEntryAuthFailed"
    using step [of s4 i5] p4 c5 d inps by (simp add: MAX_LOGIN_FAILURES_def)
  show ?thesis
    using p1 p2 p3 p4 p5 by (simp add: inps c1 c2 c3 c4 c5)
qed

text \<open>
  C2, as the specification states it, fails for one device error during the retry: a
  missing attribute met by the fetch after a successful re-login. It is handled as schema
  drift inside the fetch wrapper, so the cycle returns the cached snapshot instead of
  reporting a failure, and the counter, which stood at 3, is reset to 0.
\<close>

theorem drift_during_retry_resets_counter_counterexample:
  "password with_password \<noteq> None
   \<and> \<not> api_changed three_failures
   \<and> login_failed_count three_failures = 3
   \<and> fetch_powerwall_data (first_fetch (failing_after_relogin MissingAttributeError))
       = Inl AccessDeniedError
   \<and> relogin (failing_after_relogin MissingAttributeError) = None
   \<and> fetch_powerwall_data (retry_fetch (failing_after_relogin MissingAttributeError))
       = Inl MissingAttributeError
   \<and> fst (refresh_cycle with_password (failing_after_relogin MissingAttributeError)
            three_failures)
       = Inr (Some healthy_snapshot)
   \<and> login_failed_count
        (snd (refresh_cycle with_password (failing_after_relogin MissingAttributeError)
               three_failures))
       = 0"
  by (simp add: refresh_cycle_def update_defs recreate_defs fetch_failing
        failing_after_relogin_def three_failures_def initial_runtime_def with_password_def)

text \<open>
  C2, amended: with a password configured, each access-denied answer during the retry
  (from the login or from the fetch after it) increments the failure counter; the cycle
  raises \<open>ConfigEntryAuthFailed\<close> when the counter reaches 5 and \<open>UpdateFailed\<close> otherwise, so
  five such cycles in a row from a counter of 0 fail four times and end in
  \<open>ConfigEntryAuthFailed\<close>. Any successful refresh resets the counter to 0. An API error other
  than access-denied raised by the login, and a generic API error or an unreachable device
  met by the fetch after the login, raise \<open>UpdateFailed\<close> and leave the counter untouched.
  A missing attribute met by that fetch is excluded.
\<close>

theorem relogin_failure_counter:
  "MAX_LOGIN_FAILURES = 5
   \<and> (password cfg \<noteq> None \<and> \<not> api_changed s
        \<and> fetch_powerwall_data (first_fetch inp) = Inl AccessDeniedError
        \<and> (relogin inp = Some AccessDeniedError
           \<or> (relogin inp = None
              \<and> fetch_powerwall_data (retry_fetch inp) = Inl AccessDeniedError))
      \<longrightarrow> login_failed_count (snd (refresh_cycle cfg inp s)) = login_failed_count s + 1
         \<and> fst (refresh_cycle cfg inp s) =
             (if login_failed_count s + 1 = MAX_LOGIN_FAILURES then Inl ConfigEntryAuthFailed
              else Inl (UpdateFailed (LoginAttemptFailed (login_failed_count s + 1)))))
   \<and> (password cfg \<noteq> None \<and> \<not> api_changed s \<and> login_failed_count s = 0
        \<and> length inps = 5
        \<and> (\<forall>i \<in> set inps.
              fetch_powerwall_data (first_fetch i) = Inl AccessDeniedError
              \<and> (relogin i = Some AccessDeniedError
                 \<or> (relogin i = None
                    \<and> fetch_powerwall_data (retry_fetch i) = Inl AccessDeniedError)))
      \<longrightarrow> fst (refresh_cycles cfg inps s) =
            [Inl (UpdateFailed (LoginAttemptFailed 1)), Inl (UpdateFailed (LoginAttemptFailed 2)),
             Inl (UpdateFailed (LoginAttemptFailed 3)), Inl (UpdateFailed (LoginAttemptFailed 4)),
             Inl ConfigEntryAuthFailed])
   \<and> (\<not> api_changed s
        \<and> (fetch_powerwall_data (first_fetch inp) = Inr d
           \<or> (fetch_powerwall_data (first_fetch inp) = Inl AccessDeniedError
              \<and> password cfg \<noteq> None \<and> relogin inp = None
              \<and> fetch_powerwall_data (retry_fetch inp) = Inr d))
      \<longrightarrow> fst (refresh_cycle cfg inp s) = Inr (Some d)
         \<and> login_failed_count (snd (refresh_cycle cfg inp s)) = 0)
   \<and> (password cfg \<noteq> None \<and> \<not> api_changed s
        \<and> fetch_powerwall_data (first_fetch inp) = Inl AccessDeniedError
        \<and> relogin inp = Some err \<and> err \<noteq> AccessDeniedError \<and> isinstance_APIError err
      \<longrightarrow> fst (refresh_cycle cfg inp s) = Inl (UpdateFailed (UpdateFailedDueTo err))
         \<and> login_failed_count (snd (refresh_cycle cfg inp s)) = login_failed_count s)
   \<and> (password cfg \<noteq> None \<and> \<not> api_changed s
        \<and> fetch_powerwall_data (first_fetch inp) = Inl AccessDeniedError
        \<and> relogin inp = None
        \<and> fetch_powerwall_data (retry_fetch inp) = Inl APIError
      \<longrightarrow> fst (refresh_cycle cfg inp s) = Inl (UpdateFailed (UpdateFailedDueTo APIError))
         \<and> login_failed_count (snd (refresh_cycle cfg inp s)) = login_failed_count s)
   \<and> (password cfg \<noteq> None \<and> \<not> api_changed s
        \<and> fetch_powerwall_data (first_fetch inp) = Inl AccessDeniedError
        \<and> relogin inp = None
        \<and> fetch_powerwall_data (retry_fetch inp) = Inl PowerwallUnreachableError
      \<longrightarrow> fst (refresh_cycle cfg inp s) = Inl (UpdateFailed UnableToFetch)
         \<and> login_failed_count (snd (refresh_cycle cfg inp s)) = login_failed_count s)"
proof (intro conjI impI)
  show "MAX_LOGIN_FAILURES = 5" by (simp add: MAX_LOGIN_FAILURES_def)
next
  assume h: "password cfg \<noteq> None \<and> \<not> api_changed s
        \<and> fetch_powerwall_data (first_fetch inp) = Inl AccessDeniedError
        \<and> (relogin inp = Some AccessDeniedError
           \<or> (relogin inp = None
              \<and> fetch_powerwall_data (retry_fetch inp) = Inl AccessDeniedError))"
  then have step: "fst (refresh_cycle cfg inp s) =
           (if login_failed_count s + 1 = MAX_LOGIN_FAILURES then Inl ConfigEntryAuthFailed
            else Inl (UpdateFailed (LoginAttemptFailed (login_failed_count s + 1))))
       \<and> login_failed_count (snd (refresh_cycle cfg inp s)) = login_failed_count s + 1
       \<and> \<not> api_changed (snd (refresh_cycle cfg inp s))"
    using denied_cycle_step [of cfg s inp] by blast
  from step show "login_failed_count (snd (refresh_cycle cfg inp s)) = login_failed_count s + 1"
    by simp
  from step show "fst (refresh_cycle cfg inp s) =
             (if login_failed_count s + 1 = MAX_LOGIN_FAILURES then Inl ConfigEntryAuthFailed
              else Inl (UpdateFailed (LoginAttemptFailed (login_failed_count s + 1))))"
    by simp
next
  assume "password cfg \<noteq> None \<and> \<not> api_changed s \<and> login_failed_count s = 0
        \<and> length inps = 5
        \<and> (\<forall>i \<in> set inps.
              fetch_powerwall_data (first_fetch i) = Inl AccessDeniedError
              \<and> (relogin i = Some AccessDeniedError
                 \<or> (relogin i = None
                    \<and> fetch_powerwall_data (retry_fetch i) = Inl AccessDeniedError)))"
  then show "fst (refresh_cycles cfg inps s) =
            [Inl (UpdateFailed (LoginAttemptFailed 1)), Inl (UpdateFailed (LoginAttemptFailed 2)),
             Inl (UpdateFailed (LoginAttemptFailed 3)), Inl (UpdateFailed (LoginAttemptFailed 4)),
             Inl ConfigEntryAuthFailed]"
    using consecutive_denials [of cfg s inps] by blast
next
  assume h: "\<not> api_changed s
        \<and> (fetch_powerwall_data (first_fetch inp) = Inr d
           \<or> (fetch_powerwall_data (first_fetch inp) = Inl AccessDeniedError
              \<and> password cfg \<noteq> None \<and> relogin inp = None
              \<and> fetch_powerwall_data (retry_fetch inp) = Inr d))"
  then have na: "\<not> api_changed s" by simp
  have ok: "fst (refresh_cycle cfg inp s) = Inr (Some d)
         \<and> login_failed_count (snd (refresh_cycle cfg inp s)) = 0"
  proof (cases "fetch_powerwall_data (first_fetch inp) = Inr d")
    case True
    then show ?thesis using first_success [OF na True, of cfg] by (simp add: refresh_cycle_def)
  next
    case False
    with h have r: "fetch_powerwall_data (first_fetch inp) = Inl AccessDeniedError"
      "password cfg \<noteq> None" "relogin inp = None"
      "fetch_powerwall_data (retry_fetch inp) = Inr d"
      by auto
    let ?s1 = "s\<lparr>events := events s @ [FetchAttempt (power_wall s)]\<rparr>"
    have u: "async_update_data cfg inp s = async_login_and_retry_update_data inp ?s1"
      using first_denied_retry [OF na r(1) r(2)] .
    show ?thesis
      unfolding refresh_cycle_def u
      using retry_success [OF r(3) r(4), of ?s1]
      by (cases "async_login_and_retry_update_data inp ?s1") auto
  qed
  from ok show "fst (refresh_cycle cfg inp s) = Inr (Some d)" by simp
  from ok show "login_failed_count (snd (refresh_cycle cfg inp s)) = 0" by simp
next
  assume h: "password cfg \<noteq> None \<and> \<not> api_changed s
        \<and> fetch_powerwall_data (first_fetch inp) = Inl AccessDeniedError
        \<and> relogin inp = Some err \<and> err \<noteq> AccessDeniedError \<and> isinstance_APIError err"
  let ?s1 = "s\<lparr>events := events s @ [FetchAttempt (power_wall s)]\<rparr>"
  have c: "fst (refresh_cycle cfg inp s) = fst (async_login_and_retry_update_data inp ?s1)
    \<and> login_failed_count (snd (refresh_cycle cfg inp s))
         = login_failed_count (snd (async_login_and_retry_update_data inp ?s1))"
    using h cycle_through_retry [of s inp cfg] by simp
  have e: "fst (async_login_and_retry_update_data inp ?s1)
            = Inl (UpdateFailed (UpdateFailedDueTo err))
       \<and> login_failed_count (snd (async_login_and_retry_update_data inp ?s1))
            = login_failed_count ?s1"
    using h retry_login_api_error [of inp err ?s1] by simp
  from c e show "fst (refresh_cycle cfg inp s) = Inl (UpdateFailed (UpdateFailedDueTo err))"
    by simp
  from c e show "login_failed_count (snd (refresh_cycle cfg inp s)) = login_failed_count s"
    by simp
next
  assume h: "password cfg \<noteq> None \<and> \<not> api_changed s
        \<and> fetch_powerwall_data (first_fetch inp) = Inl AccessDeniedError
        \<and> relogin inp = None
        \<and> fetch_powerwall_data (retry_fetch inp) = Inl APIError"
  let ?s1 = "s\<lparr>events := events s @ [FetchAttempt (power_wall s)]\<rparr>"
  have c: "fst (refresh_cycle cfg inp s) = fst (async_login_and_retry_update_data inp ?s1)
    \<and> login_failed_count (snd (refresh_cycle cfg inp s))
         = login_failed_count (snd (async_login_and_retry_update_data inp ?s1))"
    using h cycle_through_retry [of s inp cfg] by simp
  have e: "fst (async_login_and_retry_update_data inp ?s1)
            = Inl (UpdateFailed (UpdateFailedDueTo APIError))
       \<and> login_failed_count (snd (async_login_and_retry_update_data inp ?s1))
            = login_failed_count ?s1"
    using h retry_api_error [of inp ?s1] by simp
  from c e show "fst (refresh_cycle cfg inp s) = Inl (UpdateFailed (UpdateFailedDueTo APIError))"
    by simp
  from c e show "login_failed_count (snd (refresh_cycle cfg inp s)) = login_failed_count s"
    by simp
next
  assume h: "password cfg \<noteq> None \<and> \<not> api_changed s
        \<and> fetch_powerwall_data (first_fetch inp) = Inl AccessDeniedError
        \<and> relogin inp = None
        \<and> fetch_powerwall_data (retry_fetch inp) = Inl PowerwallUnreachableError"
  let ?s1 = "s\<lparr>events := events s @ [FetchAttempt (power_wall s)]\<rparr>"
  have c: "fst (refresh_cycle cfg inp s) = fst (async_login_and_retry_update_data inp ?s1)
    \<and> login_failed_count (snd (refresh_cycle cfg inp s))
         = login_failed_count (snd (async_login_and_retry_update_data inp ?s1))"
    using h cycle_through_retry [of s inp cfg] by simp
  have e: "fst (async_login_and_retry_update_data inp ?s1) = Inl (UpdateFailed UnableToFetch)
       \<and> login_failed_count (snd (async_login_and_retry_update_data inp ?s1))
            = login_failed_count ?s1"
    using h retry_unreachable [of inp ?s1] by simp
  from c e show "fst (refresh_cycle cfg inp s) = Inl (UpdateFailed UnableToFetch)"
    by simp
  from c e show "login_failed_count (snd (refresh_cycle cfg inp s)) = login_failed_count s"
    by simp
qed

theorem relogin_failure_counter_witness:
  "password with_password \<noteq> None
   \<and> \<not> api_changed (initial_runtime :: nat runtime)
   \<and> login_failed_count (initial_runtime :: nat runtime) = 0
   \<and> fetch_powerwall_data (first_fetch denied_cycle) = Inl AccessDeniedError
   \<and> relogin denied_cycle = Some AccessDeniedError
   \<and> fst (refresh_cycles with_password
            [denied_cycle, denied_cycle, denied_cycle, denied_cycle, denied_cycle]
            initial_runtime) =
        [Inl (UpdateFailed (LoginAttemptFailed 1)), Inl (UpdateFailed (LoginAttemptFailed 2)),
         Inl (UpdateFailed (LoginAttemptFailed 3)), Inl (UpdateFailed (LoginAttemptFailed 4)),
         Inl ConfigEntryAuthFailed]
   \<and> login_failed_count three_failures = 3
   \<and> fst (refresh_cycle with_password denied_cycle three_failures)
       = Inl (UpdateFailed (LoginAttemptFailed 4))
   \<and> login_failed_count (snd (refresh_cycle with_password denied_cycle three_failures)) = 4
   \<and> fetch_powerwall_data (first_fetch healthy_cycle) = Inr healthy_snapshot
   \<and> fst (refresh_cycle with_password healthy_cycle three_failures)
       = Inr (Some healthy_snapshot)
   \<and> login_failed_count (snd (refresh_cycle with_password healthy_cycle three_failures)) = 0
   \<and> fetch_powerwall_data (retry_fetch (failing_after_relogin APIError)) = Inl APIError
   \<and> fst (refresh_cycle with_password (failing_after_relogin APIError) three_failures)
       = Inl (UpdateFailed (UpdateFailedDueTo APIError))
   \<and> login_failed_count
        (snd (refresh_cycle with_password (failing_after_relogin APIError) three_failures))
       = 3"
  using relogin_failure_counter
      [of with_password initial_runtime denied_cycle
          "[denied_cycle, denied_cycle, denied_cycle, denied_cycle, denied_cycle]"]
    relogin_failure_counter [of with_password three_failures denied_cycle]
    relogin_failure_counter [of with_password three_failures healthy_cycle _ healthy_snapshot]
    relogin_failure_counter [of with_password three_failures "failing_after_relogin APIError"]
  by (simp add: with_password_def initial_runtime_def three_failures_def denied_cycle_def
        healthy_cycle_def failing_after_relogin_def fetch_failing fetch_healthy)

section \<open>Replacing the session\<close>

lemma recreate_final_state:
  "snd (recreate_powerwall_login outcome s) = last (recreate_states s)"
  by (simp add: recreate_powerwall_login_def recreate_states_def Let_def split: option.splits)

lemma recreate_final_fields:
  "events (last (recreate_states s)) =
     events s @ [SessionClosed (http_session s), SessionCreated (next_session s),
                 LoginAttempt (next_session s)]
   \<and> http_session (last (recreate_states s)) = next_session s
   \<and> power_wall (last (recreate_states s)) = next_session s
   \<and> runtime_http_session (last (recreate_states s)) = next_session s
   \<and> runtime_power_wall (last (recreate_states s)) = next_session s
   \<and> closed_sessions (last (recreate_states s)) = http_session s # closed_sessions s"
  by (simp add: recreate_states_def recreate_defs Let_def)

lemma recreate_installed_validity:
  assumes "next_session s \<notin> set (closed_sessions s)" and "next_session s \<noteq> http_session s"
    and "runtime_http_session s = http_session s"
  shows "map installed_session_valid (recreate_states s) =
      [current_session_valid s, False, False, False, False, True, True]"
  using assms
  by (simp add: recreate_states_def recreate_defs session_valid_def Let_def
        installed_session_valid_def current_session_valid_def)

lemma recreate_current_validity:
  assumes "next_session s \<notin> set (closed_sessions s)" and "next_session s \<noteq> http_session s"
  shows "map current_session_valid (recreate_states s) =
      [current_session_valid s, False, True, True, True, True, True]"
  using assms
  by (simp add: recreate_states_def recreate_defs session_valid_def Let_def
        current_session_valid_def)

lemma retry_events_login_succeeds:
  assumes "relogin inp = None"
  shows "\<exists>rest. events (snd (async_login_and_retry_update_data inp s)) =
     events s @ [SessionClosed (http_session s), SessionCreated (next_session s),
                 LoginAttempt (next_session s), FetchAttempt (next_session s)] @ rest"
proof (cases "fetch_powerwall_data (retry_fetch inp)")
  case (Inr d)
  with assms show ?thesis by (simp add: update_defs recreate_defs)
next
  case (Inl err)
  with assms show ?thesis by (cases err) (simp_all add: update_defs recreate_defs)
qed

lemma retry_events_login_fails:
  assumes "relogin inp = Some err"
  shows "events (snd (async_login_and_retry_update_data inp s)) =
     events s @ [SessionClosed (http_session s), SessionCreated (next_session s),
                 LoginAttempt (next_session s)]"
  using assms by (cases err) (simp_all add: update_defs recreate_defs)

text \<open>
  The sessions are consistent when setup hands over, and every cycle keeps them so.
\<close>

lemma sessions_consistent_initial: "sessions_consistent initial_runtime"
  by (simp add: sessions_consistent_def initial_runtime_def)

lemma sessions_consistent_update:
  "sessions_consistent s \<Longrightarrow> sessions_consistent (snd (async_update_powerwall_data r s))"
  by (auto simp: sessions_consistent_def async_update_powerwall_data_def Let_def
        async_handle_api_changed_error_def split: sum.splits)

lemma sessions_consistent_recreate:
  "sessions_consistent s \<Longrightarrow> sessions_consistent (snd (recreate_powerwall_login out s))"
  by (auto simp: sessions_consistent_def recreate_defs Let_def less_Suc_eq split: option.splits)

lemma sessions_consistent_handlers:
  "sessions_consistent s \<Longrightarrow> sessions_consistent (snd (retry_handlers x s))"
  by (auto simp: sessions_consistent_def retry_handlers_def Let_def split: update_error.splits)

lemma sessions_consistent_fields:
  "sessions_consistent s \<Longrightarrow> sessions_consistent (s\<lparr>login_failed_count := n\<rparr>)"
  "sessions_consistent s \<Longrightarrow> sessions_consistent (s\<lparr>coordinator_data := d\<rparr>)"
  by (simp_all add: sessions_consistent_def)

lemma sessions_consistent_retry:
  assumes "sessions_consistent s"
  shows "sessions_consistent (snd (async_login_and_retry_update_data inp s))"
proof -
  obtain r1 s1 where a: "recreate_powerwall_login (relogin inp) s = (r1, s1)"
    by (cases "recreate_powerwall_login (relogin inp) s")
  then have c1: "sessions_consistent s1"
    using sessions_consistent_recreate [OF assms, of "relogin inp"] by simp
  obtain r2 s2 where b: "async_update_powerwall_data (retry_fetch inp) s1 = (r2, s2)"
    by (cases "async_update_powerwall_data (retry_fetch inp) s1")
  then have c2: "sessions_consistent s2"
    using sessions_consistent_update [OF c1, of "retry_fetch inp"] by simp
  show ?thesis
    using c1 c2 sessions_consistent_handlers sessions_consistent_fields(1)
    by (auto simp: async_login_and_retry_update_data_def a b split: sum.splits)
qed

lemma sessions_consistent_cycle:
  assumes "sessions_consistent s"
  shows "sessions_consistent (snd (refresh_cycle cfg inp s))"
proof -
  obtain r1 s1 where a: "async_update_powerwall_data (first_fetch inp) s = (r1, s1)"
    by (cases "async_update_powerwall_data (first_fetch inp) s")
  then have c1: "sessions_consistent s1"
    using sessions_consistent_update [OF assms, of "first_fetch inp"] by simp
  have "sessions_consistent (snd (async_update_data cfg inp s))"
    using assms c1 sessions_consistent_retry [OF c1, of inp] sessions_consistent_fields(1)
    by (auto simp: async_update_data_def a split: sum.splits update_error.splits)
  then show ?thesis
    using sessions_consistent_fields(2)
    by (cases "async_update_data cfg inp s") (auto simp: refresh_cycle_def split: sum.splits)
qed

lemma sessions_consistent_cycles:
  "sessions_consistent s \<Longrightarrow> sessions_consistent (snd (refresh_cycles cfg inps s))"
proof (induction inps arbitrary: s)
  case Nil
  then show ?case by simp
next
  case (Cons i inps)
  obtain r s1 where a: "refresh_cycle cfg i s = (r, s1)"
    by (cases "refresh_cycle cfg i s")
  then have "sessions_consistent s1"
    using sessions_consistent_cycle [OF Cons.prems, of cfg i] by simp
  then have "sessions_consistent (snd (refresh_cycles cfg inps s1))"
    by (rule Cons.IH)
  then show ?case
    by (cases "refresh_cycles cfg inps s1") (simp add: a)
qed

lemma sessions_consistent_fresh:
  "sessions_consistent s \<Longrightarrow>
     next_session s \<notin> set (closed_sessions s) \<and> next_session s \<noteq> http_session s
     \<and> runtime_http_session s = http_session s"
  by (auto simp: sessions_consistent_def)

text \<open>
  C8, as the specification states it, fails: \<open>_recreate_powerwall_login\<close> closes the previous
  session in its first statement, before the new one exists. Run from the state setup
  leaves, the session installed in \<open>runtime_data\<close> is the closed one in the four states that
  follow the close, and right after the close the closure's own session is closed too, so
  no valid session object exists there.
\<close>

theorem relogin_closes_before_install_counterexample:
  "map installed_session_valid (recreate_states (initial_runtime :: nat runtime))
       = [True, False, False, False, False, True, True]
   \<and> map current_session_valid (recreate_states (initial_runtime :: nat runtime))
       = [True, False, True, True, True, True, True]
   \<and> events (last (recreate_states (initial_runtime :: nat runtime)))
       = [SessionClosed 0, SessionCreated 1, LoginAttempt 1]"
  by (simp add: recreate_states_def recreate_defs session_valid_def Let_def
        installed_session_valid_def current_session_valid_def initial_runtime_def)

text \<open>
  C8, amended: in every state the refresh can reach, during re-login the previous session
  is closed first; then a new session
  and a client over it are created and installed in \<open>runtime_data\<close>, and only after that is
  the login attempted, and after a successful login the fetch, both against the new
  session. Between the close and the installation the installed session is the closed
  previous one; after the installation it is the new, valid one. When the login fails no
  fetch is attempted.
\<close>

theorem relogin_replaces_transport:
  assumes "sessions_consistent s"
  shows "snd (recreate_powerwall_login outcome s) = last (recreate_states s)
    \<and> events (last (recreate_states s)) =
         events s @ [SessionClosed (http_session s), SessionCreated (next_session s),
                     LoginAttempt (next_session s)]
    \<and> map installed_session_valid (recreate_states s) =
         [current_session_valid s, False, False, False, False, True, True]
    \<and> map current_session_valid (recreate_states s) =
         [current_session_valid s, False, True, True, True, True, True]
    \<and> http_session (last (recreate_states s)) = next_session s
    \<and> power_wall (last (recreate_states s)) = next_session s
    \<and> runtime_http_session (last (recreate_states s)) = next_session s
    \<and> runtime_power_wall (last (recreate_states s)) = next_session s
    \<and> (relogin inp = None \<longrightarrow>
         (\<exists>rest. events (snd (async_login_and_retry_update_data inp s)) =
            events s @ [SessionClosed (http_session s), SessionCreated (next_session s),
                        LoginAttempt (next_session s), FetchAttempt (next_session s)] @ rest))
    \<and> (relogin inp = Some err \<longrightarrow>
         events (snd (async_login_and_retry_update_data inp s)) =
            events s @ [SessionClosed (http_session s), SessionCreated (next_session s),
                        LoginAttempt (next_session s)])"
proof -
  have fresh: "next_session s \<notin> set (closed_sessions s)" "next_session s \<noteq> http_session s"
    "runtime_http_session s = http_session s"
    using sessions_consistent_fresh [OF assms] by simp_all
  show ?thesis
    using recreate_final_state [of outcome s] recreate_final_fields [of s]
      recreate_installed_validity [OF fresh] recreate_current_validity [OF fresh(1) fresh(2)]
      retry_events_login_succeeds [of inp s] retry_events_login_fails [of inp err s]
    by simp
qed

theorem relogin_replaces_transport_witness:
  "sessions_consistent (initial_runtime :: nat runtime)
   \<and> events (snd (recreate_powerwall_login None (initial_runtime :: nat runtime)))
       = [SessionClosed 0, SessionCreated 1, LoginAttempt 1]
   \<and> runtime_http_session (snd (recreate_powerwall_login None (initial_runtime :: nat runtime))) = 1
   \<and> power_wall (snd (recreate_powerwall_login None (initial_runtime :: nat runtime))) = 1
   \<and> events (snd (async_login_and_retry_update_data denied_cycle initial_runtime))
       = [SessionClosed 0, SessionCreated 1, LoginAttempt 1]"
  using relogin_replaces_transport
    [OF sessions_consistent_initial, of None denied_cycle AccessDeniedError]
    sessions_consistent_initial [where ?'a = nat]
  by (simp add: initial_runtime_def denied_cycle_def)

end
